theory Spec2Isabelle
  imports Main "HOL-Library.Word"
begin

section \<open>JavaScript values used by the handlers\<close>

text \<open>
  A JavaScript string is a sequence of 16-bit code units. Request fields, environment
  variables and document fields that may be missing are \<open>js_string option\<close>, with
  \<open>None\<close> for \<open>undefined\<close>. All request fields are taken to be strings, which is
  what a query string or form field with a single occurrence of the key delivers.
\<close>

type_synonym js_string = "16 word list"

definition lit :: "string \<Rightarrow> js_string" where
  "lit s = map of_char s"

text \<open>\<open>String.prototype.trim\<close> strips WhiteSpace and LineTerminator code units.\<close>

definition isWhiteSpace :: "16 word \<Rightarrow> bool" where
  "isWhiteSpace c \<longleftrightarrow>
     c = 0x0009 \<or> c = 0x000B \<or> c = 0x000C \<or> c = 0xFEFF \<or>
     c = 0x0020 \<or> c = 0x00A0 \<or> c = 0x1680 \<or> (0x2000 \<le> c \<and> c \<le> 0x200A) \<or>
     c = 0x202F \<or> c = 0x205F \<or> c = 0x3000"

definition isLineTerminator :: "16 word \<Rightarrow> bool" where
  "isLineTerminator c \<longleftrightarrow> c = 0x000A \<or> c = 0x000D \<or> c = 0x2028 \<or> c = 0x2029"

definition isTrimmable :: "16 word \<Rightarrow> bool" where
  "isTrimmable c \<longleftrightarrow> isWhiteSpace c \<or> isLineTerminator c"

definition trim :: "js_string \<Rightarrow> js_string" where
  "trim s = rev (dropWhile isTrimmable (rev (dropWhile isTrimmable s)))"

text \<open>\<open>!x\<close> for a value that is a string or \<open>undefined\<close>.\<close>

definition falsy :: "js_string option \<Rightarrow> bool" where
  "falsy x = (case x of None \<Rightarrow> True | Some s \<Rightarrow> s = [])"

text \<open>The idiom \<open>x ? x.trim() : ""\<close> of the handlers.\<close>

definition trimOrEmpty :: "js_string option \<Rightarrow> js_string" where
  "trimOrEmpty x = (case x of None \<Rightarrow> [] | Some s \<Rightarrow> if s = [] then [] else trim s)"

text \<open>A value substituted into a template literal: \<open>undefined\<close> prints as its name.\<close>

definition subst :: "js_string option \<Rightarrow> js_string" where
  "subst x = (case x of None \<Rightarrow> lit ''undefined'' | Some s \<Rightarrow> s)"

text \<open>\<open>s.startsWith(p)\<close>.\<close>

fun startsWith :: "js_string \<Rightarrow> js_string \<Rightarrow> bool" where
  "startsWith s [] = True"
| "startsWith [] (p # ps) = False"
| "startsWith (c # cs) (p # ps) = (c = p \<and> startsWith cs ps)"

section \<open>Responses\<close>

record folder =
  folder_id :: nat
  folder_name :: js_string
  folder_uid :: js_string

record b2_file =
  file_id :: js_string
  file_name :: js_string

datatype payload =
    Error js_string
  | FolderData folder
  | FolderList "folder list"
  | UploadData js_string js_string
  | FileList "b2_file list"
  | DeleteData b2_file
  | SignedUrl js_string

record response =
  status :: nat
  success :: bool
  payload :: payload

text \<open>\<open>res.status(code).json({ success: false, error })\<close> and
  \<open>res.json({ success: true, ... })\<close>, which answers with status 200.\<close>

definition failure :: "nat \<Rightarrow> js_string \<Rightarrow> response" where
  "failure code msg = \<lparr>status = code, success = False, payload = Error msg\<rparr>"

definition json_ok :: "payload \<Rightarrow> response" where
  "json_ok p = \<lparr>status = 200, success = True, payload = p\<rparr>"

section \<open>The object store, the file system and the environment\<close>

text \<open>
  The object-store client is an external library. Every call the handlers issue is
  recorded, and what the store answers is a parameter: each operation maps the calls
  issued so far and its arguments either to the message of the error it throws
  (\<open>Inl\<close>) or to the fields of \<open>response.data\<close> the handler reads (\<open>Inr\<close>).
\<close>

datatype b2_call =
    Authorize
  | GetUploadUrl "js_string option"
  | UploadFile js_string js_string js_string js_string
  | ListFileNames "js_string option" js_string nat
  | DeleteFileVersion js_string js_string
  | GetDownloadAuthorization "js_string option" js_string nat

record b2_client =
  authorize :: "b2_call list \<Rightarrow> js_string + js_string"
  getUploadUrl :: "b2_call list \<Rightarrow> js_string option \<Rightarrow> js_string + js_string \<times> js_string"
  uploadFile :: "b2_call list \<Rightarrow> js_string \<Rightarrow> js_string \<Rightarrow> js_string \<Rightarrow> js_string
                   \<Rightarrow> js_string + js_string"
  listFileNames :: "b2_call list \<Rightarrow> js_string option \<Rightarrow> js_string \<Rightarrow> nat
                   \<Rightarrow> js_string + b2_file list"
  deleteFileVersion :: "b2_call list \<Rightarrow> js_string \<Rightarrow> js_string \<Rightarrow> js_string + b2_file"
  getDownloadAuthorization :: "b2_call list \<Rightarrow> js_string option \<Rightarrow> js_string \<Rightarrow> nat
                   \<Rightarrow> js_string + js_string"

text \<open>\<open>fs.readFileSync\<close> returns the data or throws; \<open>fs.unlinkSync\<close> throws
  (\<open>Some\<close> message) or returns.\<close>

record fs =
  readFileSync :: "js_string \<Rightarrow> js_string + js_string"
  unlinkSync :: "js_string \<Rightarrow> js_string option"

record upload_file =
  path :: js_string
  originalname :: js_string

record env =
  B2_BUCKET_ID :: "js_string option"
  B2_BUCKET_NAME :: "js_string option"

section \<open>Server state\<close>

text \<open>
  The module-level variables \<open>folders\<close> and \<open>folderIdCounter\<close>, and the calls issued
  to the object store so far. Folder ids are JavaScript numbers counting up from 1 by
  one per created folder; they stay far inside the range where such numbers are exact
  integers, and are modelled as natural numbers.
\<close>

record server =
  folders :: "folder list"
  folderIdCounter :: nat
  b2_calls :: "b2_call list"

definition fresh :: server where
  "fresh = \<lparr>folders = [], folderIdCounter = 1, b2_calls = []\<rparr>"

section \<open>Folder endpoints\<close>

definition post_folder :: "server \<Rightarrow> js_string option \<Rightarrow> js_string option \<Rightarrow> response \<times> server" where
  "post_folder s body_name body_uid =
     (case (body_name, body_uid) of
        (Some name, Some uid) \<Rightarrow>
          if name = [] \<or> uid = [] then
            (failure 400 (lit ''Falta el nombre de la carpeta o el UID''), s)
          else
            let newFolder = \<lparr>folder_id = folderIdCounter s, folder_name = name, folder_uid = uid\<rparr>
            in (json_ok (FolderData newFolder),
                s\<lparr>folders := folders s @ [newFolder], folderIdCounter := folderIdCounter s + 1\<rparr>)
      | _ \<Rightarrow> (failure 400 (lit ''Falta el nombre de la carpeta o el UID''), s))"

definition get_folders :: "server \<Rightarrow> js_string option \<Rightarrow> response \<times> server" where
  "get_folders s query_uid =
     (let uid = trimOrEmpty query_uid in
      if uid = [] then (failure 400 (lit ''Falta el UID en la query''), s)
      else
        let userFolders = filter (\<lambda>folder. folder_uid folder = uid) (folders s)
        in (json_ok (FolderList userFolders), s))"

section \<open>File endpoints\<close>

definition undefined_path_message :: js_string where
  "undefined_path_message =
     lit ''Cannot read properties of undefined (reading '' @ [0x27] @ lit ''path'' @ [0x27] @ lit '')''"

definition post_upload ::
  "b2_client \<Rightarrow> fs \<Rightarrow> env \<Rightarrow> server \<Rightarrow> js_string option \<Rightarrow> js_string option
     \<Rightarrow> upload_file option \<Rightarrow> response \<times> server" where
  "post_upload b2 fsys ev s body_uid body_carpeta file =
     (let uid = trimOrEmpty body_uid in
      if uid = [] then (failure 400 (lit ''UID requerido''), s)
      else
        (let s1 = s\<lparr>b2_calls := b2_calls s @ [Authorize]\<rparr> in
         (case authorize b2 (b2_calls s) of
            Inl message \<Rightarrow> (failure 500 message, s1)
          | Inr _ \<Rightarrow>
             (let bucketId = B2_BUCKET_ID ev;
                  s2 = s1\<lparr>b2_calls := b2_calls s1 @ [GetUploadUrl bucketId]\<rparr> in
              (case getUploadUrl b2 (b2_calls s1) bucketId of
                 Inl message \<Rightarrow> (failure 500 message, s2)
               | Inr (uploadUrl, authorizationToken) \<Rightarrow>
                  (case file of
                     None \<Rightarrow> (failure 500 undefined_path_message, s2)
                   | Some f \<Rightarrow>
                      (let filePath = path f in
                       (case readFileSync fsys filePath of
                          Inl message \<Rightarrow> (failure 500 message, s2)
                        | Inr fileData \<Rightarrow>
                           (let originalFileName = originalname f;
                                carpeta = trimOrEmpty body_carpeta;
                                refPath = lit ''archivos/'' @ (uid @ lit ''/'')
                                          @ (if carpeta \<noteq> [] then carpeta @ lit ''/'' else [])
                                          @ originalFileName;
                                s3 = s2\<lparr>b2_calls := b2_calls s2 @
                                       [UploadFile uploadUrl authorizationToken refPath fileData]\<rparr> in
                            (case uploadFile b2 (b2_calls s2) uploadUrl authorizationToken
                                    refPath fileData of
                               Inl message \<Rightarrow> (failure 500 message, s3)
                             | Inr fileId \<Rightarrow>
                                (case unlinkSync fsys filePath of
                                   Some message \<Rightarrow> (failure 500 message, s3)
                                 | None \<Rightarrow> (json_ok (UploadData fileId refPath), s3))))))))))))"

definition get_files :: "b2_client \<Rightarrow> env \<Rightarrow> server \<Rightarrow> js_string option \<Rightarrow> response \<times> server" where
  "get_files b2 ev s query_uid =
     (let s1 = s\<lparr>b2_calls := b2_calls s @ [Authorize]\<rparr> in
      (case authorize b2 (b2_calls s) of
         Inl message \<Rightarrow> (failure 500 message, s1)
       | Inr _ \<Rightarrow>
          (let bucketId = B2_BUCKET_ID ev;
               uid = trimOrEmpty query_uid;
               prefix = lit ''archivos/'' @ (if uid \<noteq> [] then uid @ lit ''/'' else []);
               s2 = s1\<lparr>b2_calls := b2_calls s1 @ [ListFileNames bucketId prefix 100]\<rparr> in
           (case listFileNames b2 (b2_calls s1) bucketId prefix 100 of
              Inl message \<Rightarrow> (failure 500 message, s2)
            | Inr files \<Rightarrow> (json_ok (FileList files), s2)))))"

definition delete_file ::
  "b2_client \<Rightarrow> server \<Rightarrow> js_string option \<Rightarrow> js_string option \<Rightarrow> js_string option
     \<Rightarrow> response \<times> server" where
  "delete_file b2 s query_fileId query_fileName query_uid =
     (case (query_fileId, query_fileName, query_uid) of
        (Some fileId, Some fileName, Some uid) \<Rightarrow>
          (if fileId = [] \<or> fileName = [] \<or> uid = [] then
             (failure 400 (lit ''Se requiere fileId, fileName y uid''), s)
           else if \<not> startsWith fileName (lit ''archivos/'' @ uid @ lit ''/'') then
             (failure 403 (lit ''No autorizado para eliminar este archivo''), s)
           else
             (let s1 = s\<lparr>b2_calls := b2_calls s @ [Authorize]\<rparr> in
              (case authorize b2 (b2_calls s) of
                 Inl message \<Rightarrow> (failure 500 message, s1)
               | Inr _ \<Rightarrow>
                  (let s2 = s1\<lparr>b2_calls := b2_calls s1 @ [DeleteFileVersion fileId fileName]\<rparr> in
                   (case deleteFileVersion b2 (b2_calls s1) fileId fileName of
                      Inl message \<Rightarrow> (failure 500 message, s2)
                    | Inr data \<Rightarrow> (json_ok (DeleteData data), s2))))))
      | _ \<Rightarrow> (failure 400 (lit ''Se requiere fileId, fileName y uid''), s))"

definition get_download ::
  "b2_client \<Rightarrow> env \<Rightarrow> server \<Rightarrow> js_string option \<Rightarrow> js_string option \<Rightarrow> response \<times> server" where
  "get_download b2 ev s query_fileName query_uid =
     (let uid = trimOrEmpty query_uid in
      (case query_fileName of
         None \<Rightarrow> (failure 400 (lit ''Falta el par'' @ [0xE1] @ lit ''metro fileName o uid''), s)
       | Some fileName \<Rightarrow>
          (if fileName = [] \<or> uid = [] then
             (failure 400 (lit ''Falta el par'' @ [0xE1] @ lit ''metro fileName o uid''), s)
           else if \<not> startsWith fileName (lit ''archivos/'' @ uid @ lit ''/'') then
             (failure 403 (lit ''No autorizado para descargar este archivo''), s)
           else
             (let s1 = s\<lparr>b2_calls := b2_calls s @ [Authorize]\<rparr> in
              (case authorize b2 (b2_calls s) of
                 Inl message \<Rightarrow> (failure 500 message, s1)
               | Inr baseDownloadUrl \<Rightarrow>
                  (let bucketId = B2_BUCKET_ID ev;
                       validDurationInSeconds = 3600;
                       s2 = s1\<lparr>b2_calls := b2_calls s1 @
                              [GetDownloadAuthorization bucketId fileName validDurationInSeconds]\<rparr> in
                   (case getDownloadAuthorization b2 (b2_calls s1) bucketId fileName
                           validDurationInSeconds of
                      Inl message \<Rightarrow> (failure 500 message, s2)
                    | Inr token \<Rightarrow>
                       (let bucketName = B2_BUCKET_NAME ev;
                            signedUrl = baseDownloadUrl @ lit ''/file/'' @ subst bucketName
                                        @ lit ''/'' @ fileName @ lit ''?Authorization='' @ token
                        in (json_ok (SignedUrl signedUrl), s2)))))))))"

section \<open>The server as a whole\<close>

datatype request =
    POST_folder "js_string option" "js_string option"
  | GET_folders "js_string option"
  | POST_upload fs "js_string option" "js_string option" "upload_file option"
  | GET_files "js_string option"
  | DELETE_file "js_string option" "js_string option" "js_string option"
  | GET_download "js_string option" "js_string option"

fun handle :: "b2_client \<Rightarrow> env \<Rightarrow> server \<Rightarrow> request \<Rightarrow> response \<times> server" where
  "handle b2 ev s (POST_folder body_name body_uid) = post_folder s body_name body_uid"
| "handle b2 ev s (GET_folders query_uid) = get_folders s query_uid"
| "handle b2 ev s (POST_upload fsys body_uid body_carpeta file) =
     post_upload b2 fsys ev s body_uid body_carpeta file"
| "handle b2 ev s (GET_files query_uid) = get_files b2 ev s query_uid"
| "handle b2 ev s (DELETE_file query_fileId query_fileName query_uid) =
     delete_file b2 s query_fileId query_fileName query_uid"
| "handle b2 ev s (GET_download query_fileName query_uid) =
     get_download b2 ev s query_fileName query_uid"

text \<open>The state after the server has answered a sequence of requests, one at a time.\<close>

fun serve :: "b2_client \<Rightarrow> env \<Rightarrow> server \<Rightarrow> request list \<Rightarrow> server" where
  "serve b2 ev s [] = s"
| "serve b2 ev s (r # rs) = serve b2 ev (snd (handle b2 ev s r)) rs"

section \<open>Reminder poller (the variant with the scheduled task)\<close>

text \<open>
  A document of the collection \<open>eventos\<close>, with the fields the task reads. Times are
  the time values of \<open>Date\<close> objects, in milliseconds. What \<open>new Date(string)\<close>
  denotes is a parameter \<open>parseDate\<close>, with \<open>None\<close> for an invalid date, whose time
  value is NaN and compares false with everything. The identity provider is a
  parameter as well: \<open>getUser\<close> throws (\<open>Inl\<close>) or returns a user record, of which
  the task reads the field \<open>email\<close>.
\<close>

record evento =
  evento_title :: "js_string option"
  evento_start :: "js_string option"
  evento_time :: "js_string option"
  evento_email :: "js_string option"
  evento_userId :: "js_string option"

record mail =
  mail_from :: "js_string option"
  mail_to :: js_string
  mail_subject :: js_string
  mail_text :: js_string
  mail_html :: js_string

datatype effect = GetUser js_string | SendMail mail

definition reminder :: "js_string option \<Rightarrow> evento \<Rightarrow> js_string \<Rightarrow> mail" where
  "reminder EMAIL_USER evento email =
     \<lparr>mail_from = EMAIL_USER,
      mail_to = email,
      mail_subject = lit ''Recordatorio: El evento '' @ [0x22] @ subst (evento_title evento)
                     @ [0x22] @ lit '' inicia en 5 minutos'',
      mail_text = lit ''El evento '' @ [0x22] @ subst (evento_title evento) @ [0x22]
                  @ lit '' comenzar'' @ [0xE1] @ lit '' el '' @ subst (evento_start evento)
                  @ lit '' a las '' @ subst (evento_time evento) @ lit ''.'',
      mail_html = lit ''<p>El evento <strong>'' @ subst (evento_title evento)
                  @ lit ''</strong> comenzar'' @ [0xE1] @ lit '' el <strong>''
                  @ subst (evento_start evento) @ lit ''</strong> a las <strong>''
                  @ subst (evento_time evento) @ lit ''</strong>.</p>''\<rparr>"

text \<open>The part of the callback after the recipient lookup: \<open>if (!email) return\<close>, then
  \<open>transporter.sendMail\<close>.\<close>

definition sendReminder :: "js_string option \<Rightarrow> evento \<Rightarrow> js_string option \<Rightarrow> effect list" where
  "sendReminder EMAIL_USER evento email =
     (case email of
        None \<Rightarrow> []
      | Some e \<Rightarrow> if e = [] then [] else [SendMail (reminder EMAIL_USER evento e)])"

text \<open>The callback of \<open>snapshot.forEach\<close>: the effects it has for one document, in
  the order it issues them.\<close>

definition checkEvent ::
  "(js_string \<Rightarrow> int option) \<Rightarrow> (js_string \<Rightarrow> js_string + js_string option) \<Rightarrow> js_string option
     \<Rightarrow> int \<Rightarrow> int \<Rightarrow> evento \<Rightarrow> effect list" where
  "checkEvent parseDate getUser EMAIL_USER ahora cincoMinutosDespues evento =
     (let eventDateTime = parseDate (subst (evento_start evento) @ lit ''T''
                                      @ subst (evento_time evento) @ lit '':00'') in
      (case eventDateTime of
         None \<Rightarrow> []
       | Some t \<Rightarrow>
          (if t \<ge> ahora \<and> t \<le> cincoMinutosDespues then
             (let email = evento_email evento in
              (case evento_userId evento of
                 None \<Rightarrow> sendReminder EMAIL_USER evento email
               | Some userId \<Rightarrow>
                  (if falsy email \<and> userId \<noteq> [] then
                     (case getUser userId of
                        Inl err \<Rightarrow> [GetUser userId]
                      | Inr user_email \<Rightarrow>
                          GetUser userId # sendReminder EMAIL_USER evento user_email)
                   else sendReminder EMAIL_USER evento email)))
           else [])))"

text \<open>One tick. The documents are handled by independent asynchronous callbacks, so
  the result keeps the effects apart per document, in collection order; a failing read
  of the collection is caught and nothing happens.\<close>

definition checkUpcomingEvents ::
  "(js_string \<Rightarrow> int option) \<Rightarrow> (js_string \<Rightarrow> js_string + js_string option) \<Rightarrow> js_string option
     \<Rightarrow> int \<Rightarrow> js_string + evento list \<Rightarrow> effect list list" where
  "checkUpcomingEvents parseDate getUser EMAIL_USER ahora snapshot =
     (let cincoMinutosDespues = ahora + 5 * 60 * 1000 in
      (case snapshot of
         Inl error \<Rightarrow> []
       | Inr docs \<Rightarrow> map (checkEvent parseDate getUser EMAIL_USER ahora cincoMinutosDespues) docs))"

text \<open>In the words of the specification: the event time, the lookahead window, and the
  recipient of a reminder.\<close>

definition eventDateTime_of :: "(js_string \<Rightarrow> int option) \<Rightarrow> evento \<Rightarrow> int option" where
  "eventDateTime_of parseDate evento =
     parseDate (subst (evento_start evento) @ lit ''T'' @ subst (evento_time evento) @ lit '':00'')"

definition in_window :: "(js_string \<Rightarrow> int option) \<Rightarrow> int \<Rightarrow> evento \<Rightarrow> bool" where
  "in_window parseDate now evento =
     (case eventDateTime_of parseDate evento of
        None \<Rightarrow> False
      | Some t \<Rightarrow> now \<le> t \<and> t \<le> now + 300000)"

definition recipient :: "(js_string \<Rightarrow> js_string + js_string option) \<Rightarrow> evento \<Rightarrow> js_string option" where
  "recipient getUser evento =
     (if \<not> falsy (evento_email evento) then evento_email evento
      else (case evento_userId evento of
              None \<Rightarrow> None
            | Some userId \<Rightarrow>
               (if userId = [] then None
                else (case getUser userId of
                        Inl err \<Rightarrow> None
                      | Inr user_email \<Rightarrow> if falsy user_email then None else user_email))))"

fun mails_sent :: "effect list \<Rightarrow> mail list" where
  "mails_sent [] = []"
| "mails_sent (SendMail m # es) = m # mails_sent es"
| "mails_sent (GetUser u # es) = mails_sent es"

fun lookups :: "effect list \<Rightarrow> js_string list" where
  "lookups [] = []"
| "lookups (GetUser u # es) = u # lookups es"
| "lookups (SendMail m # es) = lookups es"

section \<open>An in-memory object store\<close>

text \<open>
  A stand-in for the object store, on which the handlers can be run: the files it
  holds are those uploaded and not deleted by the calls so far, and a listing returns
  at most \<open>maxFileCount\<close> of the files under the prefix.
\<close>

fun stored :: "b2_call list \<Rightarrow> b2_file list" where
  "stored [] = []"
| "stored (UploadFile url token fileName data # cs) =
     \<lparr>file_id = lit ''id-'' @ fileName, file_name = fileName\<rparr> # stored cs"
| "stored (DeleteFileVersion fileId fileName # cs) =
     filter (\<lambda>f. \<not> (file_id f = fileId \<and> file_name f = fileName)) (stored cs)"
| "stored (c # cs) = stored cs"

definition memory_b2 :: b2_client where
  "memory_b2 =
     \<lparr>authorize = (\<lambda>calls. Inr (lit ''https://f000.example.com'')),
      getUploadUrl = (\<lambda>calls bucketId. Inr (lit ''https://pod.example.com/upload'', lit ''up-token'')),
      uploadFile = (\<lambda>calls url token fileName data. Inr (lit ''id-'' @ fileName)),
      listFileNames = (\<lambda>calls bucketId prefix maxFileCount.
         Inr (take maxFileCount (filter (\<lambda>f. startsWith (file_name f) prefix) (rev (stored (rev calls)))))),
      deleteFileVersion = (\<lambda>calls fileId fileName.
         if \<lparr>file_id = fileId, file_name = fileName\<rparr> \<in> set (stored (rev calls))
         then Inr \<lparr>file_id = fileId, file_name = fileName\<rparr>
         else Inl (lit ''file_not_present'')),
      getDownloadAuthorization = (\<lambda>calls bucketId fileNamePrefix validDurationInSeconds.
         Inr (lit ''dl-token''))\<rparr>"

definition memory_env :: env where
  "memory_env = \<lparr>B2_BUCKET_ID = Some (lit ''bucket-1''), B2_BUCKET_NAME = Some (lit ''mis-archivos'')\<rparr>"

definition memory_fs :: fs where
  "memory_fs = \<lparr>readFileSync = (\<lambda>p. Inr (lit ''contenido'')), unlinkSync = (\<lambda>p. None)\<rparr>"

section \<open>Example scenarios\<close>

text \<open>The server after user \<open>u2\<close> has uploaded \<open>doc.pdf\<close> to the in-memory store.\<close>

definition doc_pdf :: upload_file where
  "doc_pdf = \<lparr>path = lit ''uploads/3f9a'', originalname = lit ''doc.pdf''\<rparr>"

definition stocked :: server where
  "stocked = snd (post_upload memory_b2 memory_fs memory_env fresh (Some (lit ''u2'')) None (Some doc_pdf))"

text \<open>A reminder scenario: at \<open>10:00:00\<close> an event is due at \<open>10:03\<close>; it stores no email
  address, and the identity provider knows its user.\<close>

definition sample_evento :: evento where
  "sample_evento =
     \<lparr>evento_title = Some (lit ''Examen''), evento_start = Some (lit ''2025-03-01''),
      evento_time = Some (lit ''10:03''), evento_email = None,
      evento_userId = Some (lit ''uid-7'')\<rparr>"

definition sample_parseDate :: "js_string \<Rightarrow> int option" where
  "sample_parseDate str =
     (if str = lit ''2025-03-01T10:03:00'' then Some 1740823380000 else None)"

definition sample_getUser :: "js_string \<Rightarrow> js_string + js_string option" where
  "sample_getUser userId =
     (if userId = lit ''uid-7'' then Inr (Some (lit ''ana@example.com''))
      else Inl (lit ''auth/user-not-found''))"

definition sample_now :: int where
  "sample_now = 1740823200000"

section \<open>Vocabulary of the properties\<close>

text \<open>The ids in the registry are \<open>1, 2, ...\<close> in insertion order, up to the counter.\<close>

definition ids_ok :: "server \<Rightarrow> bool" where
  "ids_ok s \<longleftrightarrow> map folder_id (folders s) = [1 ..< folderIdCounter s]"

text \<open>The calls to the object store that a handler issued on the way from \<open>s\<close> to \<open>s'\<close>.\<close>

definition issued :: "server \<Rightarrow> server \<Rightarrow> b2_call list" where
  "issued s s' = drop (length (b2_calls s)) (b2_calls s')"

text \<open>The path composition \<open>archivos/{uid}/[{folder}/]{filename}\<close> in the words of the
  specification, to compare with what \<open>post_upload\<close> builds.\<close>

definition namespaced_path :: "js_string \<Rightarrow> js_string \<Rightarrow> js_string \<Rightarrow> js_string" where
  "namespaced_path uid carpeta f =
     lit ''archivos/'' @ uid @ lit ''/'' @ (if carpeta \<noteq> [] then carpeta @ lit ''/'' else []) @ f"

section \<open>Strings: facts about \<open>startsWith\<close> and \<open>trim\<close>\<close>

lemma startsWith_iff: "startsWith s p \<longleftrightarrow> (\<exists>t. s = p @ t)"
  by (induction s p rule: startsWith.induct) auto

lemma trim_no_leading: "trim s \<noteq> [] \<Longrightarrow> \<not> isTrimmable (hd (trim s))"
proof -
  assume ne: "trim s \<noteq> []"
  let ?a = "dropWhile isTrimmable s"
  let ?b = "dropWhile isTrimmable (rev ?a)"
  have b_ne: "?b \<noteq> []" using ne by (simp add: trim_def)
  then have "rev ?a \<noteq> []" by (metis dropWhile.simps(1))
  then have a_ne: "?a \<noteq> []" by simp
  have hd_a: "\<not> isTrimmable (hd ?a)" using a_ne by (rule hd_dropWhile)
  have "\<exists>ys. rev ?a = ys @ ?b"
    by (metis takeWhile_dropWhile_id)
  then obtain ys where ys: "rev ?a = ys @ ?b" ..
  then have "?a = rev ?b @ rev ys" by (metis rev_append rev_rev_ident)
  then have "hd ?a = hd (rev ?b)" using b_ne by (metis hd_append2 rev_is_Nil_conv)
  then show ?thesis using hd_a by (simp add: trim_def)
qed

lemma trim_no_trailing: "trim s \<noteq> [] \<Longrightarrow> \<not> isTrimmable (last (trim s))"
proof -
  assume ne: "trim s \<noteq> []"
  let ?b = "dropWhile isTrimmable (rev (dropWhile isTrimmable s))"
  have b_ne: "?b \<noteq> []" using ne by (simp add: trim_def)
  then have "\<not> isTrimmable (hd ?b)" by (rule hd_dropWhile)
  then show ?thesis using b_ne by (simp add: trim_def last_rev)
qed

section \<open>Folder registry\<close>

lemma post_folder_invalid:
  "falsy body_name \<or> falsy body_uid \<Longrightarrow>
     post_folder s body_name body_uid =
       (failure 400 (lit ''Falta el nombre de la carpeta o el UID''), s)"
  by (auto simp: post_folder_def falsy_def split: option.splits)

lemma post_folder_valid:
  "name \<noteq> [] \<Longrightarrow> uid \<noteq> [] \<Longrightarrow>
     post_folder s (Some name) (Some uid) =
       (json_ok (FolderData \<lparr>folder_id = folderIdCounter s, folder_name = name, folder_uid = uid\<rparr>),
        s\<lparr>folders := folders s @ [\<lparr>folder_id = folderIdCounter s, folder_name = name, folder_uid = uid\<rparr>],
          folderIdCounter := folderIdCounter s + 1\<rparr>)"
  by (simp add: post_folder_def Let_def)

lemma post_folder_registry_cases:
  "snd (post_folder s n u) = s \<or>
   (\<exists>f. folder_id f = folderIdCounter s \<and> folders (snd (post_folder s n u)) = folders s @ [f]
        \<and> folderIdCounter (snd (post_folder s n u)) = folderIdCounter s + 1)"
  by (simp add: post_folder_def Let_def split: option.splits)

lemma handle_registry:
  "(folders (snd (handle b2 ev s r)) = folders s \<and> folderIdCounter (snd (handle b2 ev s r)) = folderIdCounter s) \<or>
   (\<exists>f. folder_id f = folderIdCounter s \<and> folders (snd (handle b2 ev s r)) = folders s @ [f]
        \<and> folderIdCounter (snd (handle b2 ev s r)) = folderIdCounter s + 1)"
proof (cases r)
  case (POST_folder n u)
  then show ?thesis using post_folder_registry_cases[of s n u] by auto
next
  case (GET_folders u)
  then show ?thesis by (simp add: get_folders_def Let_def)
next
  case (POST_upload f u c upl)
  then show ?thesis
    by (simp add: post_upload_def Let_def split: sum.splits option.splits prod.splits)
next
  case (GET_files u)
  then show ?thesis by (simp add: get_files_def Let_def split: sum.splits)
next
  case (DELETE_file i n u)
  then show ?thesis by (simp add: delete_file_def Let_def split: sum.splits option.splits)
next
  case (GET_download n u)
  then show ?thesis by (simp add: get_download_def Let_def split: sum.splits option.splits)
qed

lemma handle_ids_ok: "ids_ok s \<Longrightarrow> 1 \<le> folderIdCounter s \<Longrightarrow>
   ids_ok (snd (handle b2 ev s r)) \<and> 1 \<le> folderIdCounter (snd (handle b2 ev s r))"
  using handle_registry[of b2 ev s r] by (auto simp: ids_ok_def upt_Suc_append)

lemma serve_ids_ok: "ids_ok s \<Longrightarrow> 1 \<le> folderIdCounter s \<Longrightarrow> ids_ok (serve b2 ev s rs)"
proof (induction rs arbitrary: s)
  case Nil
  then show ?case by simp
next
  case (Cons r rs)
  then show ?case using handle_ids_ok[of s b2 ev r] by simp
qed


text \<open>
  Claim C4. \<open>POST /folder\<close> answers 400 and leaves the state as it is when \<open>name\<close> or
  \<open>uid\<close> is absent or empty. Otherwise it appends the record with the current counter
  as id and the given name and uid, returns that record with \<open>success: true\<close>, and
  advances the counter by one. After any sequence of requests to a fresh server, the
  folder at position \<open>i\<close> of the registry (counting from 0) has id \<open>i + 1\<close>: the first
  created folder has id 1, the second id 2, and the ids are strictly increasing and
  pairwise distinct.
\<close>

theorem post_folder_contract:
  "(falsy body_name \<or> falsy body_uid \<longrightarrow>
      post_folder s body_name body_uid =
        (failure 400 (lit ''Falta el nombre de la carpeta o el UID''), s))
   \<and> (name \<noteq> [] \<and> uid \<noteq> [] \<longrightarrow>
      post_folder s (Some name) (Some uid) =
        (json_ok (FolderData \<lparr>folder_id = folderIdCounter s, folder_name = name, folder_uid = uid\<rparr>),
         s\<lparr>folders := folders s @
              [\<lparr>folder_id = folderIdCounter s, folder_name = name, folder_uid = uid\<rparr>],
           folderIdCounter := folderIdCounter s + 1\<rparr>))
   \<and> (\<forall>i < length (folders (serve b2 ev fresh rs)).
         folder_id (folders (serve b2 ev fresh rs) ! i) = i + 1)
   \<and> sorted_wrt (<) (map folder_id (folders (serve b2 ev fresh rs)))
   \<and> distinct (map folder_id (folders (serve b2 ev fresh rs)))"
proof -
  let ?s = "serve b2 ev fresh rs"
  have "ids_ok fresh" and "1 \<le> folderIdCounter fresh"
    by (simp_all add: ids_ok_def fresh_def)
  then have "ids_ok ?s" by (rule serve_ids_ok)
  then have ids: "map folder_id (folders ?s) = [1 ..< folderIdCounter ?s]"
    by (simp add: ids_ok_def)
  have nth: "\<forall>i < length (folders ?s). folder_id (folders ?s ! i) = i + 1"
  proof (intro allI impI)
    fix i assume i: "i < length (folders ?s)"
    then have "folder_id (folders ?s ! i) = map folder_id (folders ?s) ! i" by simp
    also have "\<dots> = [1 ..< folderIdCounter ?s] ! i" by (simp only: ids)
    also have "\<dots> = i + 1"
    proof -
      have "length (folders ?s) = folderIdCounter ?s - 1"
        using arg_cong[OF ids, of length] by simp
      then show ?thesis using i by simp
    qed
    finally show "folder_id (folders ?s ! i) = i + 1" .
  qed
  have srt: "sorted_wrt (<) (map folder_id (folders ?s))"
    by (simp only: ids sorted_wrt_upt)
  have dst: "distinct (map folder_id (folders ?s))"
    by (simp only: ids distinct_upt)
  show ?thesis
    using post_folder_invalid[of body_name body_uid s] post_folder_valid[of name uid s] nth srt dst
    by blast
qed

theorem post_folder_contract_witness:
  "falsy None
   \<and> post_folder fresh None (Some (lit ''u1'')) =
       (failure 400 (lit ''Falta el nombre de la carpeta o el UID''), fresh)
   \<and> lit ''Docs'' \<noteq> [] \<and> lit ''u1'' \<noteq> []
   \<and> fst (post_folder fresh (Some (lit ''Docs'')) (Some (lit ''u1''))) =
       json_ok (FolderData \<lparr>folder_id = 1, folder_name = lit ''Docs'', folder_uid = lit ''u1''\<rparr>)
   \<and> 1 < length (folders (serve memory_b2 memory_env fresh
          [POST_folder (Some (lit ''Docs'')) (Some (lit ''u1'')),
           POST_folder (Some (lit ''Pics'')) (Some (lit ''u1''))]))
   \<and> folder_id (folders (serve memory_b2 memory_env fresh
          [POST_folder (Some (lit ''Docs'')) (Some (lit ''u1'')),
           POST_folder (Some (lit ''Pics'')) (Some (lit ''u1''))]) ! 1) = 2"
  using post_folder_contract[of None "Some (lit ''u1'')" fresh "lit ''Docs''" "lit ''u1''" memory_b2 memory_env
      "[POST_folder (Some (lit ''Docs'')) (Some (lit ''u1'')),
        POST_folder (Some (lit ''Pics'')) (Some (lit ''u1''))]"]
  by (simp add: falsy_def lit_def fresh_def post_folder_def Let_def)

lemma trimOrEmpty_falsy: "falsy q \<Longrightarrow> trimOrEmpty q = []"
  by (auto simp: falsy_def trimOrEmpty_def split: option.splits)

lemma trimOrEmpty_ends:
  "trimOrEmpty q \<noteq> [] \<Longrightarrow>
     \<not> isTrimmable (hd (trimOrEmpty q)) \<and> \<not> isTrimmable (last (trimOrEmpty q))"
  using trim_no_leading trim_no_trailing
  by (auto simp: trimOrEmpty_def split: option.splits if_splits)

text \<open>
  Claim C5, as amended. \<open>GET /folders\<close> answers 400 when the query parameter \<open>uid\<close> is
  absent, empty, or trims to the empty string. Otherwise it answers with exactly the
  folders of the registry whose \<open>uid\<close> field equals the trimmed query uid, in insertion
  order, and with no folder whose \<open>uid\<close> differs from the trimmed query uid. The server
  state is unchanged in both cases.
\<close>

theorem get_folders_contract:
  "(falsy query_uid \<or> trimOrEmpty query_uid = [] \<longrightarrow>
      get_folders s query_uid = (failure 400 (lit ''Falta el UID en la query''), s))
   \<and> (trimOrEmpty query_uid \<noteq> [] \<longrightarrow>
      (\<exists>listed. get_folders s query_uid = (json_ok (FolderList listed), s)
         \<and> listed = filter (\<lambda>f. folder_uid f = trimOrEmpty query_uid) (folders s)
         \<and> (\<forall>f \<in> set listed. folder_uid f = trimOrEmpty query_uid)
         \<and> (\<forall>f \<in> set (folders s). folder_uid f = trimOrEmpty query_uid \<longrightarrow> f \<in> set listed)))"
  using trimOrEmpty_falsy[of query_uid]
  by (auto simp: get_folders_def Let_def)

theorem get_folders_contract_witness:
  "falsy None
   \<and> get_folders (snd (post_folder fresh (Some (lit ''Docs'')) (Some (lit ''u1'')))) None =
       (failure 400 (lit ''Falta el UID en la query''),
        snd (post_folder fresh (Some (lit ''Docs'')) (Some (lit ''u1''))))
   \<and> trimOrEmpty (Some (lit '' u1 '')) \<noteq> []
   \<and> fst (get_folders (snd (post_folder fresh (Some (lit ''Docs'')) (Some (lit ''u1''))))
            (Some (lit '' u1 ''))) =
       json_ok (FolderList [\<lparr>folder_id = 1, folder_name = lit ''Docs'', folder_uid = lit ''u1''\<rparr>])"
  using get_folders_contract[of None "snd (post_folder fresh (Some (lit ''Docs'')) (Some (lit ''u1'')))"]
    get_folders_contract[of "Some (lit '' u1 '')"
      "snd (post_folder fresh (Some (lit ''Docs'')) (Some (lit ''u1'')))"]
  by (simp add: falsy_def lit_def fresh_def post_folder_def Let_def trimOrEmpty_def trim_def
      isTrimmable_def isWhiteSpace_def isLineTerminator_def)

text \<open>
  Claim C5 as stated speaks of the query uid itself. The query uid \<open>" u1"\<close> is not
  empty, and the answer lists a folder whose \<open>uid\<close> field, \<open>"u1"\<close>, differs from it.
\<close>

theorem get_folders_untrimmed_counterexample:
  "\<not> falsy (Some (lit '' u1''))
   \<and> get_folders (snd (post_folder fresh (Some (lit ''Docs'')) (Some (lit ''u1''))))
        (Some (lit '' u1'')) =
       (json_ok (FolderList [\<lparr>folder_id = 1, folder_name = lit ''Docs'', folder_uid = lit ''u1''\<rparr>]),
        snd (post_folder fresh (Some (lit ''Docs'')) (Some (lit ''u1''))))
   \<and> folder_uid \<lparr>folder_id = 1, folder_name = lit ''Docs'', folder_uid = lit ''u1''\<rparr> \<noteq> lit '' u1''"
  by (simp add: falsy_def lit_def fresh_def post_folder_def get_folders_def Let_def trimOrEmpty_def
      trim_def isTrimmable_def isWhiteSpace_def isLineTerminator_def)

lemma handle_folders_grow: "set (folders s) \<subseteq> set (folders (snd (handle b2 ev s r)))"
  using handle_registry[of b2 ev s r] by auto

lemma serve_folders_grow: "set (folders s) \<subseteq> set (folders (serve b2 ev s rs))"
proof (induction rs arbitrary: s)
  case Nil
  then show ?case by simp
next
  case (Cons r rs)
  have "set (folders s) \<subseteq> set (folders (snd (handle b2 ev s r)))"
    by (rule handle_folders_grow)
  also have "\<dots> \<subseteq> set (folders (serve b2 ev (snd (handle b2 ev s r)) rs))"
    by (rule Cons.IH)
  finally show ?case by simp
qed

lemma get_folders_listed_uid:
  assumes "fst (get_folders s query_uid) = json_ok (FolderList listed)" and "f \<in> set listed"
  shows "folder_uid f = trimOrEmpty query_uid \<and> trimOrEmpty query_uid \<noteq> []"
  using assms by (auto simp: get_folders_def Let_def json_ok_def failure_def split: if_splits)

lemma untrimmed_uid_not_listed:
  assumes "isTrimmable (hd uid) \<or> isTrimmable (last uid)"
    and "fst (get_folders s query_uid) = json_ok (FolderList listed)"
    and "f \<in> set listed"
  shows "folder_uid f \<noteq> uid"
proof
  assume "folder_uid f = uid"
  with get_folders_listed_uid[OF assms(2,3)]
  have eq: "trimOrEmpty query_uid = uid" and ne: "trimOrEmpty query_uid \<noteq> []" by simp_all
  from trimOrEmpty_ends[OF ne] have "\<not> isTrimmable (hd uid)" and "\<not> isTrimmable (last uid)"
    unfolding eq by simp_all
  with assms(1) show False by blast
qed

text \<open>
  Claim C10. \<open>POST /folder\<close> stores the name and the uid as supplied. When the uid begins
  or ends with a code unit that \<open>trim\<close> strips, the created folder stays in the registry
  whatever requests follow, and no \<open>GET /folders\<close> answer contains it, for any query uid.
\<close>

theorem whitespace_uid_folder_never_listed:
  assumes "name \<noteq> []" and "uid \<noteq> []" and "isTrimmable (hd uid) \<or> isTrimmable (last uid)"
    and "f = \<lparr>folder_id = folderIdCounter s, folder_name = name, folder_uid = uid\<rparr>"
  shows "fst (post_folder s (Some name) (Some uid)) = json_ok (FolderData f)
         \<and> (\<forall>rs. f \<in> set (folders (serve b2 ev (snd (post_folder s (Some name) (Some uid))) rs)))
         \<and> (\<forall>rs query_uid listed.
               fst (get_folders (serve b2 ev (snd (post_folder s (Some name) (Some uid))) rs) query_uid)
                 = json_ok (FolderList listed)
               \<longrightarrow> f \<notin> set listed)"
proof -
  let ?s' = "snd (post_folder s (Some name) (Some uid))"
  have created: "post_folder s (Some name) (Some uid) =
      (json_ok (FolderData f), s\<lparr>folders := folders s @ [f], folderIdCounter := folderIdCounter s + 1\<rparr>)"
    unfolding assms(4) using assms(1,2) by (rule post_folder_valid)
  have first: "fst (post_folder s (Some name) (Some uid)) = json_ok (FolderData f)"
    by (simp only: created fst_conv)
  have "f \<in> set (folders ?s')"
    by (simp add: created)
  then have kept: "\<forall>rs. f \<in> set (folders (serve b2 ev ?s' rs))"
    using serve_folders_grow[of ?s' b2 ev] by blast
  have uid_f: "folder_uid f = uid" by (simp add: assms(4))
  have hidden: "\<forall>rs query_uid listed.
      fst (get_folders (serve b2 ev ?s' rs) query_uid) = json_ok (FolderList listed)
      \<longrightarrow> f \<notin> set listed"
    using untrimmed_uid_not_listed[OF assms(3)] uid_f by blast
  from first kept hidden show ?thesis by (intro conjI)
qed

theorem whitespace_uid_folder_never_listed_witness:
  "lit ''Docs'' \<noteq> [] \<and> lit '' u1'' \<noteq> [] \<and> isTrimmable (hd (lit '' u1''))
   \<and> fst (post_folder fresh (Some (lit ''Docs'')) (Some (lit '' u1''))) =
        json_ok (FolderData \<lparr>folder_id = 1, folder_name = lit ''Docs'', folder_uid = lit '' u1''\<rparr>)
   \<and> fst (get_folders (serve memory_b2 memory_env
               (snd (post_folder fresh (Some (lit ''Docs'')) (Some (lit '' u1'')))) [])
             (Some (lit '' u1''))) = json_ok (FolderList [])
   \<and> \<lparr>folder_id = 1, folder_name = lit ''Docs'', folder_uid = lit '' u1''\<rparr> \<notin> set []"
proof -
  have a: "lit ''Docs'' \<noteq> []" and b: "lit '' u1'' \<noteq> []" by (simp_all add: lit_def)
  have c: "isTrimmable (hd (lit '' u1''))" by (simp add: lit_def isTrimmable_def isWhiteSpace_def)
  then have d: "isTrimmable (hd (lit '' u1'')) \<or> isTrimmable (last (lit '' u1''))" ..
  have e: "\<lparr>folder_id = 1, folder_name = lit ''Docs'', folder_uid = lit '' u1''\<rparr>
      = \<lparr>folder_id = folderIdCounter fresh, folder_name = lit ''Docs'', folder_uid = lit '' u1''\<rparr>"
    by (simp add: fresh_def)
  have g: "fst (get_folders (serve memory_b2 memory_env
               (snd (post_folder fresh (Some (lit ''Docs'')) (Some (lit '' u1'')))) [])
             (Some (lit '' u1''))) = json_ok (FolderList [])"
    by (simp add: lit_def fresh_def post_folder_def get_folders_def Let_def trimOrEmpty_def
      trim_def isTrimmable_def isWhiteSpace_def isLineTerminator_def)
  from whitespace_uid_folder_never_listed[OF a b d e, of memory_b2 memory_env]
  have "fst (post_folder fresh (Some (lit ''Docs'')) (Some (lit '' u1''))) =
        json_ok (FolderData \<lparr>folder_id = 1, folder_name = lit ''Docs'', folder_uid = lit '' u1''\<rparr>)"
    by (rule conjunct1)
  with a b c g show ?thesis by simp
qed

section \<open>The example state, evaluated\<close>

lemma stocked_eq:
  "stocked = \<lparr>folders = [], folderIdCounter = 1,
      b2_calls = [Authorize, GetUploadUrl (Some (lit ''bucket-1'')),
        UploadFile (lit ''https://pod.example.com/upload'') (lit ''up-token'')
          (lit ''archivos/u2/doc.pdf'') (lit ''contenido'')]\<rparr>"
  by (simp add: stocked_def post_upload_def memory_b2_def memory_fs_def memory_env_def fresh_def
      doc_pdf_def trimOrEmpty_def trim_def isTrimmable_def isWhiteSpace_def isLineTerminator_def
      lit_def Let_def)

section \<open>DELETE /file\<close>

lemma delete_file_400:
  "falsy query_fileId \<or> falsy query_fileName \<or> falsy query_uid \<Longrightarrow>
     delete_file b2 s query_fileId query_fileName query_uid =
       (failure 400 (lit ''Se requiere fileId, fileName y uid''), s)"
  by (auto simp: delete_file_def falsy_def split: option.splits)

lemma delete_file_403:
  "fileId \<noteq> [] \<Longrightarrow> fileName \<noteq> [] \<Longrightarrow> uid \<noteq> [] \<Longrightarrow>
   \<not> startsWith fileName (lit ''archivos/'' @ uid @ lit ''/'') \<Longrightarrow>
     delete_file b2 s (Some fileId) (Some fileName) (Some uid) =
       (failure 403 (lit ''No autorizado para eliminar este archivo''), s)"
  by (simp add: delete_file_def)

lemma delete_file_200:
  "fileId \<noteq> [] \<Longrightarrow> fileName \<noteq> [] \<Longrightarrow> uid \<noteq> [] \<Longrightarrow>
   startsWith fileName (lit ''archivos/'' @ uid @ lit ''/'') \<Longrightarrow>
   authorize b2 (b2_calls s) = Inr a \<Longrightarrow>
   deleteFileVersion b2 (b2_calls s @ [Authorize]) fileId fileName = Inr data \<Longrightarrow>
     delete_file b2 s (Some fileId) (Some fileName) (Some uid) =
       (json_ok (DeleteData data),
        s\<lparr>b2_calls := b2_calls s @ [Authorize, DeleteFileVersion fileId fileName]\<rparr>)"
  by (simp add: delete_file_def Let_def)

lemma delete_file_only_when:
  assumes "success (fst (delete_file b2 s query_fileId query_fileName query_uid)) \<or>
     (\<exists>i n. DeleteFileVersion i n \<in> set (issued s (snd (delete_file b2 s query_fileId query_fileName query_uid))))"
  shows "\<exists>i n u. query_fileId = Some i \<and> query_fileName = Some n \<and> query_uid = Some u
           \<and> i \<noteq> [] \<and> n \<noteq> [] \<and> u \<noteq> [] \<and> startsWith n (lit ''archivos/'' @ u @ lit ''/'')
           \<and> issued s (snd (delete_file b2 s query_fileId query_fileName query_uid))
               = [Authorize, DeleteFileVersion i n]"
proof (cases "falsy query_fileId \<or> falsy query_fileName \<or> falsy query_uid")
  case True
  from delete_file_400[OF True, of b2 s] assms show ?thesis
    by (simp add: failure_def issued_def)
next
  case False
  then obtain i n u where q: "query_fileId = Some i" "query_fileName = Some n" "query_uid = Some u"
    and ne: "i \<noteq> []" "n \<noteq> []" "u \<noteq> []"
    by (auto simp: falsy_def split: option.splits)
  show ?thesis
  proof (cases "startsWith n (lit ''archivos/'' @ u @ lit ''/'')")
    case False
    from delete_file_403[OF ne False, of b2 s] assms q show ?thesis
      by (simp add: failure_def issued_def)
  next
    case True
    with assms q ne show ?thesis
      by (simp add: delete_file_def Let_def failure_def json_ok_def issued_def split: sum.splits)
  qed
qed

text \<open>
  Claim C1. \<open>DELETE /file\<close> answers 400 when \<open>fileId\<close>, \<open>fileName\<close> or \<open>uid\<close> is absent or
  empty. Otherwise, when \<open>fileName\<close> does not start with \<open>archivos/{uid}/\<close>, it answers 403
  and the state is unchanged: no call is issued to the object store, for every
  \<open>fileId\<close>, every store and every history of calls. When the prefix check passes and the
  store authorizes and deletes, the answer is the store's delete result with
  \<open>success: true\<close>, after the calls \<open>authorize\<close> and
  \<open>deleteFileVersion({fileId, fileName})\<close>. Conversely, an answer with \<open>success: true\<close>
  or an issued \<open>deleteFileVersion\<close> occurs only for present, non-empty parameters that
  pass the prefix check.
\<close>

theorem delete_file_contract:
  "(falsy query_fileId \<or> falsy query_fileName \<or> falsy query_uid \<longrightarrow>
      delete_file b2 s query_fileId query_fileName query_uid =
        (failure 400 (lit ''Se requiere fileId, fileName y uid''), s))
   \<and> (fileId \<noteq> [] \<and> fileName \<noteq> [] \<and> uid \<noteq> []
        \<and> \<not> startsWith fileName (lit ''archivos/'' @ uid @ lit ''/'') \<longrightarrow>
      delete_file b2 s (Some fileId) (Some fileName) (Some uid) =
        (failure 403 (lit ''No autorizado para eliminar este archivo''), s))
   \<and> (fileId \<noteq> [] \<and> fileName \<noteq> [] \<and> uid \<noteq> []
        \<and> startsWith fileName (lit ''archivos/'' @ uid @ lit ''/'')
        \<and> authorize b2 (b2_calls s) = Inr a
        \<and> deleteFileVersion b2 (b2_calls s @ [Authorize]) fileId fileName = Inr data \<longrightarrow>
      delete_file b2 s (Some fileId) (Some fileName) (Some uid) =
        (json_ok (DeleteData data),
         s\<lparr>b2_calls := b2_calls s @ [Authorize, DeleteFileVersion fileId fileName]\<rparr>))
   \<and> (success (fst (delete_file b2 s query_fileId query_fileName query_uid)) \<or>
       (\<exists>i n. DeleteFileVersion i n
          \<in> set (issued s (snd (delete_file b2 s query_fileId query_fileName query_uid)))) \<longrightarrow>
      (\<exists>i n u. query_fileId = Some i \<and> query_fileName = Some n \<and> query_uid = Some u
         \<and> i \<noteq> [] \<and> n \<noteq> [] \<and> u \<noteq> [] \<and> startsWith n (lit ''archivos/'' @ u @ lit ''/'')
         \<and> issued s (snd (delete_file b2 s query_fileId query_fileName query_uid))
             = [Authorize, DeleteFileVersion i n]))"
  using delete_file_400[of query_fileId query_fileName query_uid b2 s]
    delete_file_403[of fileId fileName uid b2 s]
    delete_file_200[of fileId fileName uid b2 s a data]
    delete_file_only_when[of b2 s query_fileId query_fileName query_uid]
  by blast

theorem delete_file_contract_witness:
  "lit ''X'' \<noteq> [] \<and> lit ''archivos/u2/doc.pdf'' \<noteq> [] \<and> lit ''u1'' \<noteq> []
   \<and> \<not> startsWith (lit ''archivos/u2/doc.pdf'') (lit ''archivos/'' @ lit ''u1'' @ lit ''/'')
   \<and> delete_file memory_b2 stocked (Some (lit ''X'')) (Some (lit ''archivos/u2/doc.pdf''))
        (Some (lit ''u1'')) =
       (failure 403 (lit ''No autorizado para eliminar este archivo''), stocked)
   \<and> falsy None
   \<and> delete_file memory_b2 stocked None (Some (lit ''archivos/u2/doc.pdf'')) (Some (lit ''u1'')) =
       (failure 400 (lit ''Se requiere fileId, fileName y uid''), stocked)
   \<and> lit ''id-archivos/u2/doc.pdf'' \<noteq> [] \<and> lit ''u2'' \<noteq> []
   \<and> startsWith (lit ''archivos/u2/doc.pdf'') (lit ''archivos/'' @ lit ''u2'' @ lit ''/'')
   \<and> authorize memory_b2 (b2_calls stocked) = Inr (lit ''https://f000.example.com'')
   \<and> deleteFileVersion memory_b2 (b2_calls stocked @ [Authorize]) (lit ''id-archivos/u2/doc.pdf'')
        (lit ''archivos/u2/doc.pdf'') =
       Inr \<lparr>file_id = lit ''id-archivos/u2/doc.pdf'', file_name = lit ''archivos/u2/doc.pdf''\<rparr>
   \<and> delete_file memory_b2 stocked (Some (lit ''id-archivos/u2/doc.pdf''))
        (Some (lit ''archivos/u2/doc.pdf'')) (Some (lit ''u2'')) =
       (json_ok (DeleteData \<lparr>file_id = lit ''id-archivos/u2/doc.pdf'',
                               file_name = lit ''archivos/u2/doc.pdf''\<rparr>),
        stocked\<lparr>b2_calls := b2_calls stocked @
          [Authorize, DeleteFileVersion (lit ''id-archivos/u2/doc.pdf'') (lit ''archivos/u2/doc.pdf'')]\<rparr>)"
proof -
  have ne: "lit ''X'' \<noteq> []" "lit ''archivos/u2/doc.pdf'' \<noteq> []" "lit ''u1'' \<noteq> []"
    "lit ''id-archivos/u2/doc.pdf'' \<noteq> []" "lit ''u2'' \<noteq> []"
    by (simp_all add: lit_def)
  have np: "\<not> startsWith (lit ''archivos/u2/doc.pdf'') (lit ''archivos/'' @ lit ''u1'' @ lit ''/'')"
    by (simp add: lit_def)
  have yp: "startsWith (lit ''archivos/u2/doc.pdf'') (lit ''archivos/'' @ lit ''u2'' @ lit ''/'')"
    by (simp add: lit_def)
  have f: "falsy None" by (simp add: falsy_def)
  have au: "authorize memory_b2 (b2_calls stocked) = Inr (lit ''https://f000.example.com'')"
    by (simp add: memory_b2_def)
  have de: "deleteFileVersion memory_b2 (b2_calls stocked @ [Authorize]) (lit ''id-archivos/u2/doc.pdf'')
        (lit ''archivos/u2/doc.pdf'') =
       Inr \<lparr>file_id = lit ''id-archivos/u2/doc.pdf'', file_name = lit ''archivos/u2/doc.pdf''\<rparr>"
    by (simp add: memory_b2_def stocked_eq lit_def)
  note c = delete_file_contract[of None "Some (lit ''archivos/u2/doc.pdf'')" "Some (lit ''u1'')"
      memory_b2 stocked "lit ''X''" "lit ''archivos/u2/doc.pdf''" "lit ''u1''"]
  note d = delete_file_contract[of None None None
      memory_b2 stocked "lit ''id-archivos/u2/doc.pdf''" "lit ''archivos/u2/doc.pdf''" "lit ''u2''"
      "lit ''https://f000.example.com''"
      "\<lparr>file_id = lit ''id-archivos/u2/doc.pdf'', file_name = lit ''archivos/u2/doc.pdf''\<rparr>"]
  from c ne np f have first: "delete_file memory_b2 stocked (Some (lit ''X'')) (Some (lit ''archivos/u2/doc.pdf''))
        (Some (lit ''u1'')) =
       (failure 403 (lit ''No autorizado para eliminar este archivo''), stocked)
    \<and> delete_file memory_b2 stocked None (Some (lit ''archivos/u2/doc.pdf'')) (Some (lit ''u1'')) =
       (failure 400 (lit ''Se requiere fileId, fileName y uid''), stocked)" by blast
  from d ne yp au de have second: "delete_file memory_b2 stocked (Some (lit ''id-archivos/u2/doc.pdf''))
        (Some (lit ''archivos/u2/doc.pdf'')) (Some (lit ''u2'')) =
       (json_ok (DeleteData \<lparr>file_id = lit ''id-archivos/u2/doc.pdf'',
                               file_name = lit ''archivos/u2/doc.pdf''\<rparr>),
        stocked\<lparr>b2_calls := b2_calls stocked @
          [Authorize, DeleteFileVersion (lit ''id-archivos/u2/doc.pdf'') (lit ''archivos/u2/doc.pdf'')]\<rparr>)"
    by blast
  from ne np yp f au de first second show ?thesis by blast
qed

section \<open>GET /download against DELETE /file\<close>

text \<open>
  Claim C2. The download handler trims \<open>uid\<close> before the prefix check and the delete
  handler does not. For the file \<open>archivos/u1/a.txt\<close> and the uid \<open>" u1"\<close>, both present,
  delete answers 403 while download passes the check and answers 200 or 500, whatever
  the store, the environment and the state.
\<close>

theorem delete_download_disagree:
  "status (fst (delete_file b2 s (Some (lit ''f1'')) (Some (lit ''archivos/u1/a.txt''))
                  (Some (lit '' u1'')))) = 403
   \<and> status (fst (get_download b2 ev s (Some (lit ''archivos/u1/a.txt'')) (Some (lit '' u1''))))
        \<noteq> 403
   \<and> b2_calls (snd (delete_file b2 s (Some (lit ''f1'')) (Some (lit ''archivos/u1/a.txt''))
                  (Some (lit '' u1'')))) = b2_calls s
   \<and> b2_calls (snd (get_download b2 ev s (Some (lit ''archivos/u1/a.txt'')) (Some (lit '' u1''))))
        \<noteq> b2_calls s"
proof -
  have t: "trimOrEmpty (Some (lit '' u1'')) = lit ''u1''"
    by (simp add: trimOrEmpty_def trim_def isTrimmable_def isWhiteSpace_def isLineTerminator_def
        lit_def)
  have d: "delete_file b2 s (Some (lit ''f1'')) (Some (lit ''archivos/u1/a.txt''))
             (Some (lit '' u1'')) =
           (failure 403 (lit ''No autorizado para eliminar este archivo''), s)"
    by (rule delete_file_403) (simp_all add: lit_def)
  have g: "status (fst (get_download b2 ev s (Some (lit ''archivos/u1/a.txt'')) (Some (lit '' u1''))))
        \<noteq> 403
      \<and> b2_calls (snd (get_download b2 ev s (Some (lit ''archivos/u1/a.txt'')) (Some (lit '' u1''))))
        \<noteq> b2_calls s"
    unfolding get_download_def t
    by (simp add: lit_def Let_def failure_def json_ok_def split: sum.splits)
  from d g show ?thesis by (simp add: failure_def)
qed

section \<open>POST /upload\<close>

lemma trimOrEmpty_empty_iff:
  "trimOrEmpty x = [] \<longleftrightarrow> x = None \<or> (\<exists>u. x = Some u \<and> trim u = [])"
  by (auto simp: trimOrEmpty_def trim_def split: option.splits)

lemma post_upload_400:
  "trimOrEmpty body_uid = [] \<Longrightarrow>
     post_upload b2 fsys ev s body_uid body_carpeta upl = (failure 400 (lit ''UID requerido''), s)"
  by (simp add: post_upload_def)

text \<open>
  Claim C8. When the form field \<open>uid\<close> is absent or trims to the empty string,
  \<open>POST /upload\<close> answers 400 and the state is unchanged: no \<open>authorize\<close>, no
  \<open>getUploadUrl\<close> and no \<open>uploadFile\<close> call is issued to the object store.
\<close>

theorem post_upload_requires_uid:
  "body_uid = None \<or> (\<exists>u. body_uid = Some u \<and> trim u = []) \<longrightarrow>
     post_upload b2 fsys ev s body_uid body_carpeta upl = (failure 400 (lit ''UID requerido''), s)
     \<and> status (fst (post_upload b2 fsys ev s body_uid body_carpeta upl)) = 400
     \<and> issued s (snd (post_upload b2 fsys ev s body_uid body_carpeta upl)) = []"
proof
  assume "body_uid = None \<or> (\<exists>u. body_uid = Some u \<and> trim u = [])"
  then have "trimOrEmpty body_uid = []" by (simp only: trimOrEmpty_empty_iff)
  then have "post_upload b2 fsys ev s body_uid body_carpeta upl = (failure 400 (lit ''UID requerido''), s)"
    by (rule post_upload_400)
  then show "post_upload b2 fsys ev s body_uid body_carpeta upl = (failure 400 (lit ''UID requerido''), s)
     \<and> status (fst (post_upload b2 fsys ev s body_uid body_carpeta upl)) = 400
     \<and> issued s (snd (post_upload b2 fsys ev s body_uid body_carpeta upl)) = []"
    by (simp add: failure_def issued_def)
qed

theorem post_upload_requires_uid_witness:
  "trim (lit ''   '') = []
   \<and> post_upload memory_b2 memory_fs memory_env stocked (Some (lit ''   '')) (Some (lit ''docs''))
        (Some doc_pdf) = (failure 400 (lit ''UID requerido''), stocked)
   \<and> issued stocked (snd (post_upload memory_b2 memory_fs memory_env stocked (Some (lit ''   ''))
        (Some (lit ''docs'')) (Some doc_pdf))) = []"
proof -
  have t: "trim (lit ''   '') = []"
    by (simp add: trim_def isTrimmable_def isWhiteSpace_def lit_def)
  then have "Some (lit ''   '') = None \<or> (\<exists>u. Some (lit ''   '') = Some u \<and> trim u = [])"
    by simp
  with post_upload_requires_uid[of "Some (lit ''   '')" memory_b2 memory_fs memory_env stocked
      "Some (lit ''docs'')" "Some doc_pdf"] t
  show ?thesis by blast
qed

lemma startsWith_append: "startsWith (p @ t) p"
  by (simp add: startsWith_iff)

lemma namespaced_path_prefix:
  "startsWith (namespaced_path uid carpeta f) (lit ''archivos/'' @ uid @ lit ''/'')"
  using startsWith_append[of "lit ''archivos/'' @ uid @ lit ''/''"]
  by (simp add: namespaced_path_def)

lemma post_upload_success:
  assumes "success (fst (post_upload b2 fsys ev s body_uid body_carpeta upl))"
  shows "\<exists>f fileId url token data. upl = Some f \<and> trimOrEmpty body_uid \<noteq> []
     \<and> post_upload b2 fsys ev s body_uid body_carpeta upl =
         (json_ok (UploadData fileId
            (namespaced_path (trimOrEmpty body_uid) (trimOrEmpty body_carpeta) (originalname f))),
          s\<lparr>b2_calls := b2_calls s @ [Authorize, GetUploadUrl (B2_BUCKET_ID ev),
              UploadFile url token
                (namespaced_path (trimOrEmpty body_uid) (trimOrEmpty body_carpeta) (originalname f))
                data]\<rparr>)"
  using assms
  by (auto simp: post_upload_def Let_def failure_def json_ok_def namespaced_path_def
      split: if_splits sum.splits option.splits prod.splits)

lemma post_upload_written:
  assumes "UploadFile url token n data
             \<in> set (issued s (snd (post_upload b2 fsys ev s body_uid body_carpeta upl)))"
  shows "\<exists>f. upl = Some f \<and> trimOrEmpty body_uid \<noteq> []
     \<and> n = namespaced_path (trimOrEmpty body_uid) (trimOrEmpty body_carpeta) (originalname f)"
  using assms
  by (auto simp: post_upload_def Let_def issued_def namespaced_path_def
      split: if_splits sum.splits option.splits prod.splits)

text \<open>
  Claim C3, as amended. Every successful \<open>POST /upload\<close> has a non-empty trimmed uid and an
  uploaded file, and the path it writes to the object store and returns as \<open>fileName\<close> is
  \<open>archivos/\<close> + uid + \<open>/\<close> + (c + \<open>/\<close> if c is non-empty, else nothing) + f, where uid is
  the trimmed \<open>uid\<close> field, c is the trimmed \<open>carpeta\<close> field (empty when the field is
  absent) and f is the original name of the file. Every path the handler writes,
  whether or not the request ends successfully, is that path and begins with
  \<open>archivos/{uid}/\<close>.
\<close>

theorem post_upload_path:
  "(success (fst (post_upload b2 fsys ev s body_uid body_carpeta upl)) \<longrightarrow>
      (\<exists>f fileId url token data. upl = Some f \<and> trimOrEmpty body_uid \<noteq> []
         \<and> post_upload b2 fsys ev s body_uid body_carpeta upl =
             (json_ok (UploadData fileId
                (namespaced_path (trimOrEmpty body_uid) (trimOrEmpty body_carpeta) (originalname f))),
              s\<lparr>b2_calls := b2_calls s @ [Authorize, GetUploadUrl (B2_BUCKET_ID ev),
                  UploadFile url token
                    (namespaced_path (trimOrEmpty body_uid) (trimOrEmpty body_carpeta) (originalname f))
                    data]\<rparr>)))
   \<and> (\<forall>url token n data.
         UploadFile url token n data
           \<in> set (issued s (snd (post_upload b2 fsys ev s body_uid body_carpeta upl))) \<longrightarrow>
         (\<exists>f. upl = Some f
            \<and> n = namespaced_path (trimOrEmpty body_uid) (trimOrEmpty body_carpeta) (originalname f))
         \<and> trimOrEmpty body_uid \<noteq> []
         \<and> startsWith n (lit ''archivos/'' @ trimOrEmpty body_uid @ lit ''/''))"
proof (intro conjI impI allI)
  assume "success (fst (post_upload b2 fsys ev s body_uid body_carpeta upl))"
  then show "\<exists>f fileId url token data. upl = Some f \<and> trimOrEmpty body_uid \<noteq> []
         \<and> post_upload b2 fsys ev s body_uid body_carpeta upl =
             (json_ok (UploadData fileId
                (namespaced_path (trimOrEmpty body_uid) (trimOrEmpty body_carpeta) (originalname f))),
              s\<lparr>b2_calls := b2_calls s @ [Authorize, GetUploadUrl (B2_BUCKET_ID ev),
                  UploadFile url token
                    (namespaced_path (trimOrEmpty body_uid) (trimOrEmpty body_carpeta) (originalname f))
                    data]\<rparr>)"
    by (rule post_upload_success)
next
  fix url token n data
  assume w: "UploadFile url token n data
           \<in> set (issued s (snd (post_upload b2 fsys ev s body_uid body_carpeta upl)))"
  from post_upload_written[OF w]
  obtain f where f: "upl = Some f" "trimOrEmpty body_uid \<noteq> []"
    "n = namespaced_path (trimOrEmpty body_uid) (trimOrEmpty body_carpeta) (originalname f)"
    by blast
  from f show "\<exists>f. upl = Some f
      \<and> n = namespaced_path (trimOrEmpty body_uid) (trimOrEmpty body_carpeta) (originalname f)"
    by blast
  from f show "trimOrEmpty body_uid \<noteq> []" by simp
  from f show "startsWith n (lit ''archivos/'' @ trimOrEmpty body_uid @ lit ''/'')"
    by (simp only: namespaced_path_prefix)
qed

lemma upload_a_txt:
  "post_upload memory_b2 memory_fs memory_env fresh (Some (lit ''u1'')) (Some (lit '' docs''))
     (Some \<lparr>path = lit ''uploads/77c1'', originalname = lit ''a.txt''\<rparr>) =
   (json_ok (UploadData (lit ''id-archivos/u1/docs/a.txt'') (lit ''archivos/u1/docs/a.txt'')),
    fresh\<lparr>b2_calls := [Authorize, GetUploadUrl (Some (lit ''bucket-1'')),
       UploadFile (lit ''https://pod.example.com/upload'') (lit ''up-token'')
         (lit ''archivos/u1/docs/a.txt'') (lit ''contenido'')]\<rparr>)"
  by (simp add: post_upload_def memory_b2_def memory_fs_def memory_env_def fresh_def
      trimOrEmpty_def trim_def isTrimmable_def isWhiteSpace_def isLineTerminator_def
      lit_def Let_def)

theorem post_upload_path_witness:
  "success (fst (post_upload memory_b2 memory_fs memory_env fresh (Some (lit ''u1''))
       (Some (lit '' docs'')) (Some \<lparr>path = lit ''uploads/77c1'', originalname = lit ''a.txt''\<rparr>)))
   \<and> UploadFile (lit ''https://pod.example.com/upload'') (lit ''up-token'')
         (lit ''archivos/u1/docs/a.txt'') (lit ''contenido'')
       \<in> set (issued fresh (snd (post_upload memory_b2 memory_fs memory_env fresh (Some (lit ''u1''))
            (Some (lit '' docs'')) (Some \<lparr>path = lit ''uploads/77c1'', originalname = lit ''a.txt''\<rparr>))))
   \<and> trimOrEmpty (Some (lit ''u1'')) = lit ''u1''
   \<and> namespaced_path (lit ''u1'') (lit ''docs'') (lit ''a.txt'') = lit ''archivos/u1/docs/a.txt''
   \<and> startsWith (lit ''archivos/u1/docs/a.txt'') (lit ''archivos/'' @ lit ''u1'' @ lit ''/'')"
proof -
  let ?r = "post_upload memory_b2 memory_fs memory_env fresh (Some (lit ''u1''))
       (Some (lit '' docs'')) (Some \<lparr>path = lit ''uploads/77c1'', originalname = lit ''a.txt''\<rparr>)"
  have a: "success (fst ?r)" by (simp add: upload_a_txt json_ok_def)
  have b: "UploadFile (lit ''https://pod.example.com/upload'') (lit ''up-token'')
         (lit ''archivos/u1/docs/a.txt'') (lit ''contenido'') \<in> set (issued fresh (snd ?r))"
    unfolding upload_a_txt by (simp add: issued_def fresh_def)
  have c: "trimOrEmpty (Some (lit ''u1'')) = lit ''u1''"
    by (simp add: trimOrEmpty_def trim_def isTrimmable_def isWhiteSpace_def isLineTerminator_def
        lit_def)
  have d: "namespaced_path (lit ''u1'') (lit ''docs'') (lit ''a.txt'') = lit ''archivos/u1/docs/a.txt''"
    by (simp add: namespaced_path_def lit_def)
  from post_upload_path[of memory_b2 memory_fs memory_env fresh "Some (lit ''u1'')"
      "Some (lit '' docs'')" "Some \<lparr>path = lit ''uploads/77c1'', originalname = lit ''a.txt''\<rparr>"] b
  have "startsWith (lit ''archivos/u1/docs/a.txt'') (lit ''archivos/'' @ trimOrEmpty (Some (lit ''u1'')) @ lit ''/'')"
    by blast
  with a b c d show ?thesis by simp
qed

text \<open>
  Claim C3 as stated concatenates the field \<open>carpeta\<close> itself. With \<open>carpeta = " docs"\<close>,
  non-empty after trimming, the path written and returned is \<open>archivos/u1/docs/a.txt\<close>,
  not \<open>archivos/u1/ docs/a.txt\<close>.
\<close>

theorem post_upload_carpeta_counterexample:
  "trim (lit '' docs'') \<noteq> []
   \<and> fst (post_upload memory_b2 memory_fs memory_env fresh (Some (lit ''u1''))
       (Some (lit '' docs'')) (Some \<lparr>path = lit ''uploads/77c1'', originalname = lit ''a.txt''\<rparr>))
      = json_ok (UploadData (lit ''id-archivos/u1/docs/a.txt'') (lit ''archivos/u1/docs/a.txt''))
   \<and> lit ''archivos/u1/docs/a.txt''
      \<noteq> lit ''archivos/'' @ lit ''u1'' @ lit ''/'' @ (lit '' docs'' @ lit ''/'') @ lit ''a.txt''"
  by (simp add: upload_a_txt)
     (simp add: trim_def isTrimmable_def isWhiteSpace_def isLineTerminator_def lit_def)

section \<open>GET /files\<close>

lemma get_files_status:
  "status (fst (get_files b2 ev s query_uid)) = 200 \<or> status (fst (get_files b2 ev s query_uid)) = 500"
  by (simp add: get_files_def Let_def failure_def json_ok_def split: sum.splits)

lemma get_files_issued:
  "issued s (snd (get_files b2 ev s query_uid)) =
     (case authorize b2 (b2_calls s) of
        Inl message \<Rightarrow> [Authorize]
      | Inr a \<Rightarrow> [Authorize, ListFileNames (B2_BUCKET_ID ev)
           (lit ''archivos/'' @
              (if trimOrEmpty query_uid \<noteq> [] then trimOrEmpty query_uid @ lit ''/'' else [])) 100])"
  by (simp add: get_files_def Let_def issued_def split: sum.splits)

lemma get_files_verbatim:
  assumes "payload (fst (get_files b2 ev s query_uid)) = FileList files"
  shows "listFileNames b2 (b2_calls s @ [Authorize]) (B2_BUCKET_ID ev)
           (lit ''archivos/'' @
              (if trimOrEmpty query_uid \<noteq> [] then trimOrEmpty query_uid @ lit ''/'' else [])) 100
         = Inr files"
  using assms
  by (auto simp: get_files_def Let_def failure_def json_ok_def split: sum.splits if_splits)

text \<open>
  Claim C6. \<open>GET /files\<close> answers 200 or 500, never 400. Once the store has authorized,
  the single list request it sends asks for at most 100 entries under the prefix
  \<open>archivos/{uid}/\<close>, with the trimmed uid, when the query parameter \<open>uid\<close> trims to a
  non-empty string, and under the prefix \<open>archivos/\<close> when \<open>uid\<close> is absent, empty or
  blank. The files in the answer are the store's answer to that request, unchanged; so
  they number at most 100 whenever the store returns no more entries than a list
  request asks for.
\<close>

theorem get_files_contract:
  "status (fst (get_files b2 ev s query_uid)) \<noteq> 400
   \<and> (status (fst (get_files b2 ev s query_uid)) = 200
        \<or> status (fst (get_files b2 ev s query_uid)) = 500)
   \<and> (trimOrEmpty query_uid \<noteq> [] \<and> authorize b2 (b2_calls s) = Inr a \<longrightarrow>
        issued s (snd (get_files b2 ev s query_uid)) =
          [Authorize, ListFileNames (B2_BUCKET_ID ev)
             (lit ''archivos/'' @ trimOrEmpty query_uid @ lit ''/'') 100])
   \<and> ((falsy query_uid \<or> trimOrEmpty query_uid = []) \<and> authorize b2 (b2_calls s) = Inr a \<longrightarrow>
        issued s (snd (get_files b2 ev s query_uid)) =
          [Authorize, ListFileNames (B2_BUCKET_ID ev) (lit ''archivos/'') 100])
   \<and> (\<forall>bucketId prefix maxFileCount.
         ListFileNames bucketId prefix maxFileCount \<in> set (issued s (snd (get_files b2 ev s query_uid)))
         \<longrightarrow> maxFileCount = 100)
   \<and> (\<forall>files. payload (fst (get_files b2 ev s query_uid)) = FileList files \<longrightarrow>
         listFileNames b2 (b2_calls s @ [Authorize]) (B2_BUCKET_ID ev)
           (lit ''archivos/'' @
              (if trimOrEmpty query_uid \<noteq> [] then trimOrEmpty query_uid @ lit ''/'' else [])) 100
         = Inr files)
   \<and> ((\<forall>calls bucketId prefix maxFileCount files.
          listFileNames b2 calls bucketId prefix maxFileCount = Inr files
          \<longrightarrow> length files \<le> maxFileCount) \<longrightarrow>
       (\<forall>files. payload (fst (get_files b2 ev s query_uid)) = FileList files
          \<longrightarrow> length files \<le> 100))"
proof -
  have st: "status (fst (get_files b2 ev s query_uid)) = 200
        \<or> status (fst (get_files b2 ev s query_uid)) = 500"
    by (rule get_files_status)
  then have n400: "status (fst (get_files b2 ev s query_uid)) \<noteq> 400" by auto
  have own: "trimOrEmpty query_uid \<noteq> [] \<and> authorize b2 (b2_calls s) = Inr a \<longrightarrow>
        issued s (snd (get_files b2 ev s query_uid)) =
          [Authorize, ListFileNames (B2_BUCKET_ID ev)
             (lit ''archivos/'' @ trimOrEmpty query_uid @ lit ''/'') 100]"
    by (simp add: get_files_issued)
  have everyone: "(falsy query_uid \<or> trimOrEmpty query_uid = []) \<and> authorize b2 (b2_calls s) = Inr a \<longrightarrow>
        issued s (snd (get_files b2 ev s query_uid)) =
          [Authorize, ListFileNames (B2_BUCKET_ID ev) (lit ''archivos/'') 100]"
    using trimOrEmpty_falsy[of query_uid] by (auto simp: get_files_issued)
  have cap: "\<forall>bucketId prefix maxFileCount.
         ListFileNames bucketId prefix maxFileCount \<in> set (issued s (snd (get_files b2 ev s query_uid)))
         \<longrightarrow> maxFileCount = 100"
    by (simp add: get_files_issued split: sum.splits)
  have verb: "\<forall>files. payload (fst (get_files b2 ev s query_uid)) = FileList files \<longrightarrow>
         listFileNames b2 (b2_calls s @ [Authorize]) (B2_BUCKET_ID ev)
           (lit ''archivos/'' @
              (if trimOrEmpty query_uid \<noteq> [] then trimOrEmpty query_uid @ lit ''/'' else [])) 100
         = Inr files"
    using get_files_verbatim by blast
  have ret: "(\<forall>calls bucketId prefix maxFileCount files.
          listFileNames b2 calls bucketId prefix maxFileCount = Inr files
          \<longrightarrow> length files \<le> maxFileCount) \<longrightarrow>
       (\<forall>files. payload (fst (get_files b2 ev s query_uid)) = FileList files
          \<longrightarrow> length files \<le> 100)"
    using verb by blast
  from n400 st own everyone cap verb ret show ?thesis by (intro conjI)
qed


lemma memory_b2_honours_maxFileCount:
  "listFileNames memory_b2 calls bucketId prefix maxFileCount = Inr files
     \<Longrightarrow> length files \<le> maxFileCount"
  by (auto simp: memory_b2_def)

theorem get_files_contract_witness:
  "trimOrEmpty (Some (lit '' u2 '')) = lit ''u2'' \<and> lit ''u2'' \<noteq> []
   \<and> authorize memory_b2 (b2_calls stocked) = Inr (lit ''https://f000.example.com'')
   \<and> issued stocked (snd (get_files memory_b2 memory_env stocked (Some (lit '' u2 '')))) =
        [Authorize, ListFileNames (Some (lit ''bucket-1'')) (lit ''archivos/u2/'') 100]
   \<and> payload (fst (get_files memory_b2 memory_env stocked (Some (lit '' u2 '')))) =
        FileList [\<lparr>file_id = lit ''id-archivos/u2/doc.pdf'', file_name = lit ''archivos/u2/doc.pdf''\<rparr>]
   \<and> length [\<lparr>file_id = lit ''id-archivos/u2/doc.pdf'', file_name = lit ''archivos/u2/doc.pdf''\<rparr>]
        \<le> (100::nat)
   \<and> falsy None
   \<and> issued stocked (snd (get_files memory_b2 memory_env stocked None)) =
        [Authorize, ListFileNames (Some (lit ''bucket-1'')) (lit ''archivos/'') 100]"
proof -
  have t: "trimOrEmpty (Some (lit '' u2 '')) = lit ''u2''"
    by (simp add: trimOrEmpty_def trim_def isTrimmable_def isWhiteSpace_def isLineTerminator_def
        lit_def)
  have ne: "lit ''u2'' \<noteq> []" by (simp add: lit_def)
  have au: "authorize memory_b2 (b2_calls stocked) = Inr (lit ''https://f000.example.com'')"
    by (simp add: memory_b2_def)
  have f: "falsy None" by (simp add: falsy_def)
  have b: "B2_BUCKET_ID memory_env = Some (lit ''bucket-1'')" by (simp add: memory_env_def)
  have p: "payload (fst (get_files memory_b2 memory_env stocked (Some (lit '' u2 '')))) =
        FileList [\<lparr>file_id = lit ''id-archivos/u2/doc.pdf'', file_name = lit ''archivos/u2/doc.pdf''\<rparr>]"
    unfolding get_files_def t
    by (simp add: memory_b2_def memory_env_def stocked_eq json_ok_def Let_def lit_def)
  have cap: "\<forall>calls bucketId prefix maxFileCount files.
      listFileNames memory_b2 calls bucketId prefix maxFileCount = Inr files
      \<longrightarrow> length files \<le> maxFileCount"
    using memory_b2_honours_maxFileCount by blast
  note c = get_files_contract[of memory_b2 memory_env stocked "Some (lit '' u2 '')"
      "lit ''https://f000.example.com''"]
  note d = get_files_contract[of memory_b2 memory_env stocked None "lit ''https://f000.example.com''"]
  note own_c = c[THEN conjunct2, THEN conjunct2, THEN conjunct1]
  note ret_c = c[THEN conjunct2, THEN conjunct2, THEN conjunct2, THEN conjunct2, THEN conjunct2,
      THEN conjunct2]
  note everyone_d = d[THEN conjunct2, THEN conjunct2, THEN conjunct2, THEN conjunct1]
  have "issued stocked (snd (get_files memory_b2 memory_env stocked (Some (lit '' u2 '')))) =
        [Authorize, ListFileNames (B2_BUCKET_ID memory_env)
           (lit ''archivos/'' @ trimOrEmpty (Some (lit '' u2 '')) @ lit ''/'') 100]"
    using own_c t ne au by simp
  then have own: "issued stocked (snd (get_files memory_b2 memory_env stocked (Some (lit '' u2 '')))) =
        [Authorize, ListFileNames (Some (lit ''bucket-1'')) (lit ''archivos/u2/'') 100]"
    unfolding t b by (simp add: lit_def)
  from ret_c[THEN mp, OF cap, THEN spec, THEN mp, OF p]
  have len: "length [\<lparr>file_id = lit ''id-archivos/u2/doc.pdf'',
        file_name = lit ''archivos/u2/doc.pdf''\<rparr>] \<le> (100::nat)" .
  have "issued stocked (snd (get_files memory_b2 memory_env stocked None)) =
        [Authorize, ListFileNames (B2_BUCKET_ID memory_env) (lit ''archivos/'') 100]"
    using everyone_d f au by simp
  then have everyone: "issued stocked (snd (get_files memory_b2 memory_env stocked None)) =
        [Authorize, ListFileNames (Some (lit ''bucket-1'')) (lit ''archivos/'') 100]"
    by (simp add: b)
  from t ne au own p len f everyone show ?thesis by (intro conjI)
qed

section \<open>GET /download\<close>

lemma get_download_issued:
  assumes "fileName \<noteq> []" and "trimOrEmpty query_uid \<noteq> []"
    and "startsWith fileName (lit ''archivos/'' @ trimOrEmpty query_uid @ lit ''/'')"
  shows "issued s (snd (get_download b2 ev s (Some fileName) query_uid)) =
     (case authorize b2 (b2_calls s) of
        Inl message \<Rightarrow> [Authorize]
      | Inr url \<Rightarrow> [Authorize, GetDownloadAuthorization (B2_BUCKET_ID ev) fileName 3600])"
  using assms by (simp add: get_download_def Let_def issued_def split: sum.splits)

lemma get_download_signed:
  assumes "fileName \<noteq> []" and "trimOrEmpty query_uid \<noteq> []"
    and "startsWith fileName (lit ''archivos/'' @ trimOrEmpty query_uid @ lit ''/'')"
    and "authorize b2 (b2_calls s) = Inr downloadUrl"
    and "getDownloadAuthorization b2 (b2_calls s @ [Authorize]) (B2_BUCKET_ID ev) fileName 3600
           = Inr token"
  shows "fst (get_download b2 ev s (Some fileName) query_uid) =
     json_ok (SignedUrl (downloadUrl @ lit ''/file/'' @ subst (B2_BUCKET_NAME ev) @ lit ''/''
                         @ fileName @ lit ''?Authorization='' @ token))"
  using assms by (simp add: get_download_def Let_def)

lemma get_download_payload:
  "(\<exists>url. payload (fst (get_download b2 ev s query_fileName query_uid)) = SignedUrl url)
   \<or> (\<exists>message. payload (fst (get_download b2 ev s query_fileName query_uid)) = Error message)"
  by (simp add: get_download_def Let_def failure_def json_ok_def split: sum.splits option.splits)

text \<open>
  Claim C7. Let a \<open>GET /download\<close> request pass validation and authorization: \<open>fileName\<close>
  is non-empty, \<open>uid\<close> trims to a non-empty string and \<open>fileName\<close> starts with
  \<open>archivos/{uid}/\<close>. Then the only calls issued are \<open>authorize\<close> and, once that has
  succeeded, one \<open>getDownloadAuthorization\<close> with exactly \<open>fileName\<close> as prefix and a
  validity of 3600 seconds. When both succeed the answer is the string
  \<open>{downloadUrl}/file/{bucketName}/{fileName}?Authorization={token}\<close>, with \<open>downloadUrl\<close>
  and \<open>token\<close> taken from the two answers of the store. The payload of the answer is
  always a URL string or an error message: the handler never returns file contents.
\<close>

theorem get_download_contract:
  assumes "fileName \<noteq> []" and "trimOrEmpty query_uid \<noteq> []"
    and "startsWith fileName (lit ''archivos/'' @ trimOrEmpty query_uid @ lit ''/'')"
  shows "(\<forall>bucketId prefix seconds.
            GetDownloadAuthorization bucketId prefix seconds
              \<in> set (issued s (snd (get_download b2 ev s (Some fileName) query_uid)))
            \<longrightarrow> prefix = fileName \<and> seconds = 3600)
     \<and> (\<forall>c \<in> set (issued s (snd (get_download b2 ev s (Some fileName) query_uid))).
            c = Authorize \<or> c = GetDownloadAuthorization (B2_BUCKET_ID ev) fileName 3600)
     \<and> (authorize b2 (b2_calls s) = Inr downloadUrl \<longrightarrow>
          issued s (snd (get_download b2 ev s (Some fileName) query_uid)) =
            [Authorize, GetDownloadAuthorization (B2_BUCKET_ID ev) fileName 3600])
     \<and> (authorize b2 (b2_calls s) = Inr downloadUrl
          \<and> getDownloadAuthorization b2 (b2_calls s @ [Authorize]) (B2_BUCKET_ID ev) fileName 3600
              = Inr token \<longrightarrow>
          fst (get_download b2 ev s (Some fileName) query_uid) =
            json_ok (SignedUrl (downloadUrl @ lit ''/file/'' @ subst (B2_BUCKET_NAME ev) @ lit ''/''
                                @ fileName @ lit ''?Authorization='' @ token)))
     \<and> ((\<exists>url. payload (fst (get_download b2 ev s (Some fileName) query_uid)) = SignedUrl url)
          \<or> (\<exists>message. payload (fst (get_download b2 ev s (Some fileName) query_uid))
                 = Error message))"
proof -
  note i = get_download_issued[OF assms, of s b2 ev]
  have one: "\<forall>bucketId prefix seconds.
            GetDownloadAuthorization bucketId prefix seconds
              \<in> set (issued s (snd (get_download b2 ev s (Some fileName) query_uid)))
            \<longrightarrow> prefix = fileName \<and> seconds = 3600"
    by (simp add: i split: sum.splits)
  have two: "\<forall>c \<in> set (issued s (snd (get_download b2 ev s (Some fileName) query_uid))).
            c = Authorize \<or> c = GetDownloadAuthorization (B2_BUCKET_ID ev) fileName 3600"
    by (simp add: i split: sum.splits)
  have three: "authorize b2 (b2_calls s) = Inr downloadUrl \<longrightarrow>
          issued s (snd (get_download b2 ev s (Some fileName) query_uid)) =
            [Authorize, GetDownloadAuthorization (B2_BUCKET_ID ev) fileName 3600]"
    by (simp add: i)
  have four: "authorize b2 (b2_calls s) = Inr downloadUrl
          \<and> getDownloadAuthorization b2 (b2_calls s @ [Authorize]) (B2_BUCKET_ID ev) fileName 3600
              = Inr token \<longrightarrow>
          fst (get_download b2 ev s (Some fileName) query_uid) =
            json_ok (SignedUrl (downloadUrl @ lit ''/file/'' @ subst (B2_BUCKET_NAME ev) @ lit ''/''
                                @ fileName @ lit ''?Authorization='' @ token))"
    using get_download_signed[OF assms] by blast
  have five: "(\<exists>url. payload (fst (get_download b2 ev s (Some fileName) query_uid)) = SignedUrl url)
          \<or> (\<exists>message. payload (fst (get_download b2 ev s (Some fileName) query_uid))
                 = Error message)"
    by (rule get_download_payload)
  from one two three four five show ?thesis by (intro conjI)
qed

theorem get_download_contract_witness:
  "lit ''archivos/u2/doc.pdf'' \<noteq> [] \<and> trimOrEmpty (Some (lit ''u2 '')) = lit ''u2''
   \<and> startsWith (lit ''archivos/u2/doc.pdf'') (lit ''archivos/'' @ lit ''u2'' @ lit ''/'')
   \<and> authorize memory_b2 (b2_calls stocked) = Inr (lit ''https://f000.example.com'')
   \<and> getDownloadAuthorization memory_b2 (b2_calls stocked @ [Authorize]) (B2_BUCKET_ID memory_env)
        (lit ''archivos/u2/doc.pdf'') 3600 = Inr (lit ''dl-token'')
   \<and> issued stocked (snd (get_download memory_b2 memory_env stocked
        (Some (lit ''archivos/u2/doc.pdf'')) (Some (lit ''u2 '')))) =
       [Authorize, GetDownloadAuthorization (Some (lit ''bucket-1'')) (lit ''archivos/u2/doc.pdf'') 3600]
   \<and> fst (get_download memory_b2 memory_env stocked
        (Some (lit ''archivos/u2/doc.pdf'')) (Some (lit ''u2 ''))) =
       json_ok (SignedUrl (lit
         ''https://f000.example.com/file/mis-archivos/archivos/u2/doc.pdf?Authorization=dl-token''))"
proof -
  have ne: "lit ''archivos/u2/doc.pdf'' \<noteq> []" by (simp add: lit_def)
  have t: "trimOrEmpty (Some (lit ''u2 '')) = lit ''u2''"
    by (simp add: trimOrEmpty_def trim_def isTrimmable_def isWhiteSpace_def isLineTerminator_def
        lit_def)
  have tne: "trimOrEmpty (Some (lit ''u2 '')) \<noteq> []" unfolding t by (simp add: lit_def)
  have sw: "startsWith (lit ''archivos/u2/doc.pdf'') (lit ''archivos/'' @ lit ''u2'' @ lit ''/'')"
    by (simp add: lit_def)
  have sw': "startsWith (lit ''archivos/u2/doc.pdf'')
      (lit ''archivos/'' @ trimOrEmpty (Some (lit ''u2 '')) @ lit ''/'')"
    unfolding t by (rule sw)
  have au: "authorize memory_b2 (b2_calls stocked) = Inr (lit ''https://f000.example.com'')"
    by (simp add: memory_b2_def)
  have da: "getDownloadAuthorization memory_b2 (b2_calls stocked @ [Authorize]) (B2_BUCKET_ID memory_env)
        (lit ''archivos/u2/doc.pdf'') 3600 = Inr (lit ''dl-token'')"
    by (simp add: memory_b2_def)
  note c = get_download_contract[OF ne tne sw', of stocked memory_b2 memory_env
      "lit ''https://f000.example.com''" "lit ''dl-token''"]
  note three = c[THEN conjunct2, THEN conjunct2, THEN conjunct1, THEN mp, OF au]
  note four = c[THEN conjunct2, THEN conjunct2, THEN conjunct2, THEN conjunct1, THEN mp,
      OF conjI, OF au da]
  have i: "issued stocked (snd (get_download memory_b2 memory_env stocked
        (Some (lit ''archivos/u2/doc.pdf'')) (Some (lit ''u2 '')))) =
       [Authorize, GetDownloadAuthorization (Some (lit ''bucket-1'')) (lit ''archivos/u2/doc.pdf'') 3600]"
    using three by (simp add: memory_env_def)
  have u: "fst (get_download memory_b2 memory_env stocked
        (Some (lit ''archivos/u2/doc.pdf'')) (Some (lit ''u2 ''))) =
       json_ok (SignedUrl (lit
         ''https://f000.example.com/file/mis-archivos/archivos/u2/doc.pdf?Authorization=dl-token''))"
    unfolding four by (simp add: memory_env_def subst_def lit_def)
  from ne t sw au da i u show ?thesis by (intro conjI)
qed

section \<open>Reminder poller: what a tick does\<close>

lemma checkEvent_outside:
  "\<not> in_window parseDate ahora evento \<Longrightarrow>
     checkEvent parseDate getUser EMAIL_USER ahora (ahora + 5 * 60 * 1000) evento = []"
  by (auto simp: checkEvent_def in_window_def eventDateTime_of_def Let_def split: option.splits)

lemma checkEvent_mails:
  "in_window parseDate ahora evento \<Longrightarrow>
     mails_sent (checkEvent parseDate getUser EMAIL_USER ahora (ahora + 5 * 60 * 1000) evento) =
       (case recipient getUser evento of
          None \<Rightarrow> []
        | Some r \<Rightarrow> [reminder EMAIL_USER evento r])"
  by (auto simp: checkEvent_def in_window_def eventDateTime_of_def recipient_def Let_def
      sendReminder_def falsy_def
      split: option.splits sum.splits)

lemma checkEvent_lookups:
  "in_window parseDate ahora evento \<Longrightarrow>
     lookups (checkEvent parseDate getUser EMAIL_USER ahora (ahora + 5 * 60 * 1000) evento) =
       (if falsy (evento_email evento) \<and> \<not> falsy (evento_userId evento)
        then (case evento_userId evento of None \<Rightarrow> [] | Some userId \<Rightarrow> [userId])
        else [])"
  by (auto simp: checkEvent_def in_window_def eventDateTime_of_def Let_def
      sendReminder_def falsy_def
      split: option.splits sum.splits)

lemma checkEvent_lookups_owner:
  "u \<in> set (lookups (checkEvent parseDate getUser EMAIL_USER ahora cinco evento))
     \<Longrightarrow> evento_userId evento = Some u"
  by (auto simp: checkEvent_def Let_def sendReminder_def
      split: option.splits sum.splits if_splits)

lemma checkUpcomingEvents_nth:
  "i < length docs \<Longrightarrow>
     checkUpcomingEvents parseDate getUser EMAIL_USER now (Inr docs) ! i =
       checkEvent parseDate getUser EMAIL_USER now (now + 5 * 60 * 1000) (docs ! i)"
  by (simp add: checkUpcomingEvents_def)

lemma mail_to_reminder: "mail_to (reminder EMAIL_USER evento r) = r"
  by (simp add: reminder_def)

text \<open>
  Claim C9. On a tick at time \<open>now\<close>, for every document of the collection: a reminder
  is sent exactly when the event time, the date denoted by \<open>start\<close>, \<open>T\<close>, \<open>time\<close> and the
  seconds \<open>:00\<close>, lies between \<open>now\<close> and \<open>now\<close> + 5 minutes, both included, and a recipient
  resolves. The recipient is the document's \<open>email\<close> field when it holds a non-empty
  string; otherwise the address of the user record that one lookup of the document's
  \<open>userId\<close> returns; and there is none when \<open>userId\<close> is missing too, when the lookup
  fails, or when the user record has no address. At most one lookup is made per
  document, and only for a document in the window that has no \<open>email\<close> but a \<open>userId\<close>.
  The reminder goes to the recipient.
\<close>

theorem checkUpcomingEvents_contract:
  assumes "i < length docs"
    and "evento = docs ! i"
    and "es = checkUpcomingEvents parseDate getUser EMAIL_USER now (Inr docs) ! i"
  shows "length (checkUpcomingEvents parseDate getUser EMAIL_USER now (Inr docs)) = length docs
     \<and> (mails_sent es \<noteq> [] \<longleftrightarrow>
          in_window parseDate now evento \<and> recipient getUser evento \<noteq> None)
     \<and> (\<forall>r. in_window parseDate now evento \<and> recipient getUser evento = Some r \<longrightarrow>
          mails_sent es = [reminder EMAIL_USER evento r]
          \<and> mail_to (reminder EMAIL_USER evento r) = r)
     \<and> (\<not> in_window parseDate now evento \<longrightarrow> es = [])
     \<and> length (lookups es) \<le> 1
     \<and> (lookups es \<noteq> [] \<longleftrightarrow>
          in_window parseDate now evento \<and> falsy (evento_email evento)
          \<and> \<not> falsy (evento_userId evento))
     \<and> (\<forall>u \<in> set (lookups es). evento_userId evento = Some u)"
proof -
  have es: "es = checkEvent parseDate getUser EMAIL_USER now (now + 5 * 60 * 1000) evento"
    using assms by (simp add: checkUpcomingEvents_nth)
  have len: "length (checkUpcomingEvents parseDate getUser EMAIL_USER now (Inr docs)) = length docs"
    by (simp add: checkUpcomingEvents_def)
  show ?thesis
  proof (cases "in_window parseDate now evento")
    case False
    then have "es = []" unfolding es by (rule checkEvent_outside)
    with False len show ?thesis by simp
  next
    case True
    have m: "mails_sent es =
        (case recipient getUser evento of None \<Rightarrow> [] | Some r \<Rightarrow> [reminder EMAIL_USER evento r])"
      unfolding es using True by (rule checkEvent_mails)
    have l: "lookups es =
        (if falsy (evento_email evento) \<and> \<not> falsy (evento_userId evento)
         then (case evento_userId evento of None \<Rightarrow> [] | Some userId \<Rightarrow> [userId])
         else [])"
      unfolding es using True by (rule checkEvent_lookups)
    have a: "mails_sent es \<noteq> [] \<longleftrightarrow>
          in_window parseDate now evento \<and> recipient getUser evento \<noteq> None"
      using True by (simp add: m split: option.splits)
    have b: "\<forall>r. in_window parseDate now evento \<and> recipient getUser evento = Some r \<longrightarrow>
          mails_sent es = [reminder EMAIL_USER evento r]
          \<and> mail_to (reminder EMAIL_USER evento r) = r"
      by (simp add: m mail_to_reminder)
    have c: "\<not> in_window parseDate now evento \<longrightarrow> es = []"
      using True by simp
    have d: "length (lookups es) \<le> 1"
      by (simp add: l split: option.splits)
    have e: "lookups es \<noteq> [] \<longleftrightarrow>
          in_window parseDate now evento \<and> falsy (evento_email evento)
          \<and> \<not> falsy (evento_userId evento)"
      using True by (auto simp: l falsy_def split: option.splits)
    have f: "\<forall>u \<in> set (lookups es). evento_userId evento = Some u"
      unfolding es using checkEvent_lookups_owner by blast
    from len a b c d e f show ?thesis by (intro conjI)
  qed
qed

theorem checkUpcomingEvents_contract_witness:
  "(0::nat) < length [sample_evento]
   \<and> in_window sample_parseDate sample_now sample_evento
   \<and> recipient sample_getUser sample_evento = Some (lit ''ana@example.com'')
   \<and> mails_sent (checkUpcomingEvents sample_parseDate sample_getUser (Some (lit ''avisos@example.com''))
        sample_now (Inr [sample_evento]) ! 0) =
       [reminder (Some (lit ''avisos@example.com'')) sample_evento (lit ''ana@example.com'')]
   \<and> lookups (checkUpcomingEvents sample_parseDate sample_getUser (Some (lit ''avisos@example.com''))
        sample_now (Inr [sample_evento]) ! 0) = [lit ''uid-7'']"
proof -
  have i: "(0::nat) < length [sample_evento]" by simp
  have w: "in_window sample_parseDate sample_now sample_evento"
    by (simp add: in_window_def eventDateTime_of_def sample_parseDate_def sample_evento_def
        sample_now_def subst_def lit_def)
  have r: "recipient sample_getUser sample_evento = Some (lit ''ana@example.com'')"
    by (simp add: recipient_def sample_getUser_def sample_evento_def falsy_def lit_def)
  have l: "lookups (checkUpcomingEvents sample_parseDate sample_getUser (Some (lit ''avisos@example.com''))
        sample_now (Inr [sample_evento]) ! 0) = [lit ''uid-7'']"
    by (simp add: checkUpcomingEvents_def checkEvent_def sendReminder_def sample_parseDate_def
        sample_getUser_def sample_evento_def sample_now_def subst_def falsy_def lit_def Let_def)
  have e: "sample_evento = [sample_evento] ! 0" by simp
  note c = checkUpcomingEvents_contract[OF i e refl, of sample_parseDate sample_getUser
      "Some (lit ''avisos@example.com'')" sample_now]
  note b = c[THEN conjunct2, THEN conjunct2, THEN conjunct1, THEN spec, THEN mp, OF conjI, OF _ r,
      THEN conjunct1]
  have m: "mails_sent (checkUpcomingEvents sample_parseDate sample_getUser (Some (lit ''avisos@example.com''))
        sample_now (Inr [sample_evento]) ! 0) =
       [reminder (Some (lit ''avisos@example.com'')) sample_evento (lit ''ana@example.com'')]"
    using b w by simp
  from i w r m l show ?thesis by (intro conjI)
qed

end
